theory Spec2Isabelle
  imports Main "HOL-Library.Sublist"
begin

section \<open>Python strings\<close>

text \<open>
  A Python \<open>str\<close> is a sequence of Unicode code points, and \<open>len\<close> counts code points.
  The program writes the bullet glyph U+2022, which no 8-bit \<open>char\<close> holds, so a string
  is modelled as the list of its code points.  \<open>ustr\<close> reads an ASCII literal.
\<close>

type_synonym pystr = "nat list"

definition ustr :: "string \<Rightarrow> pystr" where
  "ustr s = map of_char s"

text \<open>
  \<open>str.lower()\<close>, on the code points whose lower case holds an ASCII letter: \<open>A\<close> to
  \<open>Z\<close>, the Kelvin sign U+212A (to \<open>k\<close>) and U+0130 (to \<open>i\<close> and the combining dot
  U+0307).  Any other code point is left as it is; Python maps it to code points beyond
  ASCII, and the program searches the lower-cased text for ASCII keywords only.
\<close>

definition lower_cp :: "nat \<Rightarrow> pystr" where
  "lower_cp c =
     (if 65 \<le> c \<and> c \<le> 90 then [c + 32]
      else if c = 8490 then [107]
      else if c = 304 then [105, 775]
      else [c])"

definition lower :: "pystr \<Rightarrow> pystr" where
  "lower s = concat (map lower_cp s)"

text \<open>\<open>sub in s\<close> on strings: \<open>sub\<close> occurs in \<open>s\<close> as a contiguous run.\<close>

fun str_in :: "pystr \<Rightarrow> pystr \<Rightarrow> bool" where
  "str_in sub [] = (sub = [])"
| "str_in sub (c # cs) = (prefix sub (c # cs) \<or> str_in sub cs)"

text \<open>\<open>any(keyword in s for keyword in keywords)\<close>.\<close>

definition any_in :: "pystr list \<Rightarrow> pystr \<Rightarrow> bool" where
  "any_in keywords s = list_ex (\<lambda>keyword. str_in keyword s) keywords"

text \<open>\<open>str.strip()\<close>: the code points for which \<open>str.isspace()\<close> holds are removed
  from both ends.\<close>

definition is_space :: "nat \<Rightarrow> bool" where
  "is_space c = ((9 \<le> c \<and> c \<le> 13) \<or> (28 \<le> c \<and> c \<le> 32) \<or> c = 133 \<or> c = 160
     \<or> c = 5760 \<or> (8192 \<le> c \<and> c \<le> 8202) \<or> c = 8232 \<or> c = 8233 \<or> c = 8239
     \<or> c = 8287 \<or> c = 12288)"

definition strip :: "pystr \<Rightarrow> pystr" where
  "strip s = rev (dropWhile is_space (rev (dropWhile is_space s)))"

text \<open>\<open>"\n".join(ps)\<close> and \<open>s.split("\n")\<close>; the line feed is code point 10.\<close>

fun join_lines :: "pystr list \<Rightarrow> pystr" where
  "join_lines [] = []"
| "join_lines [p] = p"
| "join_lines (p # q # ps) = p @ 10 # join_lines (q # ps)"

fun split_lines :: "pystr \<Rightarrow> pystr list" where
  "split_lines [] = [[]]"
| "split_lines (c # cs) =
     (if c = 10 then [] # split_lines cs
      else (case split_lines cs of [] \<Rightarrow> [[c]] | l # ls \<Rightarrow> (c # l) # ls))"

text \<open>The bullet prefix of \<open>f"\<bullet> {point}"\<close>: U+2022 and a space.\<close>

definition bullet_point :: "pystr \<Rightarrow> pystr" where
  "bullet_point point = 8226 # 32 # point"

section \<open>The document model (the part of python-pptx the generator uses)\<close>

text \<open>
  A shape of a slide.  \<open>ph_idx\<close> is \<open>placeholder_format.idx\<close>; the program reads it only
  behind \<open>is_placeholder\<close>.  \<open>has_text_frame\<close> and \<open>has_text\<close> are
  \<open>hasattr(shape, 'text_frame')\<close> and \<open>hasattr(shape, 'text')\<close>.  \<open>paragraphs\<close> are the
  texts of the paragraphs of the text frame, \<open>box\<close> is (left, top, width, height) in EMU.
\<close>

text \<open>
  Of the calls into python-pptx, \<open>Presentation(path)\<close>, an index into \<open>slide_layouts\<close>,
  \<open>add_slide\<close> and the import of \<open>pptx.shapes.textbox\<close> can raise here.  Reading a shape
  and writing a text frame do not, so the \<open>except\<close> branches around those have no
  counterpart below.
\<close>

record shape =
  is_placeholder :: bool
  ph_idx :: nat
  has_text_frame :: bool
  has_text :: bool
  sname :: pystr
  paragraphs :: "pystr list"
  box :: "(int \<times> int \<times> int \<times> int) option"

text \<open>
  A slide layout: its name and what \<open>slides.add_slide(layout)\<close> does with it:
  \<open>None\<close> when the call raises, otherwise the shapes the new slide starts with.
\<close>

record layout =
  lname :: pystr
  new_shapes :: "shape list option"

record slide =
  slide_layout :: layout
  shapes :: "shape list"
  notes_text :: "pystr option"

record presentation =
  slide_layouts :: "layout list"
  slides :: "slide list"

datatype py_error = IndexError | KeyError | AddSlideError | LoadError | ImportError

text \<open>The outline: \<open>None\<close> is a missing key of the dict.\<close>

record slide_data =
  sd_title :: "pystr option"
  sd_points :: "pystr list"
  sd_notes :: "pystr option"

record outline_data =
  o_title :: "pystr option"
  o_slides :: "slide_data list"

text \<open>\<open>PPTGenerator\<close>'s fields, once \<open>self.presentation\<close> is set.\<close>

record generator =
  presentation :: presentation
  content_layouts :: "(nat \<times> layout) list"
  current_layout_index :: nat

text \<open>What \<open>create_presentation\<close> finds at \<open>template_path\<close>.\<close>

datatype template_source = NoTemplate | Unreadable | Template presentation

subsection \<open>Library operations\<close>

text \<open>\<open>dict.get(key, default)\<close>.\<close>

definition get_default :: "'a option \<Rightarrow> 'a \<Rightarrow> 'a" where
  "get_default v d = (case v of None \<Rightarrow> d | Some x \<Rightarrow> x)"

text \<open>The position of the first element that satisfies \<open>P\<close>: a \<open>for\<close> loop left by
  \<open>break\<close> at the first hit.\<close>

fun first_index :: "('a \<Rightarrow> bool) \<Rightarrow> 'a list \<Rightarrow> nat option" where
  "first_index P [] = None"
| "first_index P (x # xs) = (if P x then Some 0 else map_option Suc (first_index P xs))"

text \<open>The position of the last element that satisfies \<open>P\<close>: a \<open>for\<close> loop that
  overwrites its result at each hit.\<close>

definition last_index :: "('a \<Rightarrow> bool) \<Rightarrow> 'a list \<Rightarrow> nat option" where
  "last_index P xs =
     (case first_index P (rev xs) of None \<Rightarrow> None | Some k \<Rightarrow> Some (length xs - 1 - k))"

text \<open>\<open>slides.add_slide(layout)\<close>: the new slide is appended to the slide sequence.\<close>

definition add_slide :: "presentation \<Rightarrow> layout \<Rightarrow> py_error + (slide \<times> presentation)" where
  "add_slide prs l =
     (case new_shapes l of
        None \<Rightarrow> Inl AddSlideError
      | Some shs \<Rightarrow>
          (let s = \<lparr>slide_layout = l, shapes = shs, notes_text = None\<rparr>
           in Inr (s, prs\<lparr>slides := slides prs @ [s]\<rparr>)))"

text \<open>\<open>slide.placeholders\<close>, and \<open>slide.placeholders[idx]\<close> / \<open>slide.shapes.title\<close>, which
  look a placeholder up by its \<open>idx\<close>.\<close>

definition placeholders :: "shape list \<Rightarrow> shape list" where
  "placeholders shs = filter is_placeholder shs"

definition placeholder_at :: "shape list \<Rightarrow> nat \<Rightarrow> nat option" where
  "placeholder_at shs idx = first_index (\<lambda>s. is_placeholder s \<and> ph_idx s = idx) shs"

text \<open>
  \<open>p.text = s\<close> on a paragraph, as \<open>p.text\<close> reads it back: a line feed or a vertical
  tab becomes a line break, read as the vertical tab (code point 11); every other control
  character below 32 but the tab is written as the escape \<open>_x00HH_\<close> with its code in
  upper-case hexadecimal.
\<close>

definition hex_digit :: "nat \<Rightarrow> nat" where
  "hex_digit d = (if d < 10 then 48 + d else 55 + d)"

definition paragraph_cp :: "nat \<Rightarrow> pystr" where
  "paragraph_cp c =
     (if c = 10 \<or> c = 11 then [11]
      else if c < 32 \<and> c \<noteq> 9
      then [95, 120, 48, 48, hex_digit (c div 16), hex_digit (c mod 16), 95]
      else [c])"

definition paragraph_text :: "pystr \<Rightarrow> pystr" where
  "paragraph_text s = concat (map paragraph_cp s)"

text \<open>\<open>text_frame.text\<close> read and written (the text is split at the line feeds into
  paragraphs), \<open>text_frame.clear()\<close>, \<open>add_paragraph()\<close>.\<close>

definition tf_text :: "shape \<Rightarrow> pystr" where
  "tf_text s = join_lines (paragraphs s)"

definition set_text :: "pystr \<Rightarrow> shape \<Rightarrow> shape" where
  "set_text t s = s\<lparr>paragraphs := map paragraph_text (split_lines t)\<rparr>"

definition tf_clear :: "pystr list \<Rightarrow> pystr list" where
  "tf_clear ps = [[]]"

definition add_paragraph :: "pystr list \<Rightarrow> pystr list" where
  "add_paragraph ps = ps @ [[]]"

text \<open>\<open>Inches(n)\<close> in EMU.\<close>

definition Inches :: "int \<Rightarrow> int" where
  "Inches n = n * 914400"

text \<open>\<open>shapes.add_textbox(left, top, width, height)\<close>: a new shape that is no placeholder,
  with an empty text frame, appended to the shapes of the slide.\<close>

definition add_textbox :: "shape list \<Rightarrow> int \<Rightarrow> int \<Rightarrow> int \<Rightarrow> int \<Rightarrow> shape list" where
  "add_textbox shs x y w h =
     shs @ [\<lparr>is_placeholder = False, ph_idx = 0, has_text_frame = True, has_text = True,
             sname = ustr ''TextBox'', paragraphs = [[]],
             box = Some (x, y, w, h)\<rparr>]"

text \<open>\<open>xs.sort(key=key, reverse=True)\<close>: Python reverses the list, sorts it stably in
  ascending order and reverses the result, so equal keys keep their order.\<close>

definition sort_reverse :: "('a \<Rightarrow> nat) \<Rightarrow> 'a list \<Rightarrow> 'a list" where
  "sort_reverse key xs = rev (sort_key key (rev xs))"

section \<open>Layout classification\<close>

definition content_keywords :: "pystr list" where
  "content_keywords = map ustr
     [''content'', ''bullet'', ''text'', ''two content'', ''comparison'',
      ''title and content'', ''section header'', ''picture with caption'',
      ''content with caption'', ''blank'']"

definition title_keywords :: "pystr list" where
  "title_keywords = map ustr [''title'', ''section'']"

definition pure_title_keywords :: "pystr list" where
  "pure_title_keywords = map ustr [''title slide'', ''title only'']"

text \<open>The removal of the temporary slide: \<open>del _sldIdLst[-1]\<close> inside \<open>try\<close>.\<close>

definition remove_last_slide :: "presentation \<Rightarrow> presentation" where
  "remove_last_slide prs = (if slides prs = [] then prs else prs\<lparr>slides := butlast (slides prs)\<rparr>)"

definition has_content_placeholders :: "presentation \<Rightarrow> layout \<Rightarrow> bool \<times> presentation" where
  "has_content_placeholders prs l =
     (case add_slide prs l of
        Inl e \<Rightarrow> (True, prs)
      | Inr (temp_slide, prs1) \<Rightarrow>
          (let has_content =
                 list_ex (\<lambda>p. ph_idx p > 0 \<and> has_text_frame p) (placeholders (shapes temp_slide));
               has_content' =
                 (if \<not> has_content
                  then list_ex (\<lambda>s. has_text_frame s \<and> \<not> is_placeholder s) (shapes temp_slide)
                  else has_content)
           in (has_content', remove_last_slide prs1)))"

text \<open>The loop of \<open>_identify_content_layouts\<close> over \<open>enumerate(slide_layouts)\<close>.\<close>

fun classify_layouts ::
  "presentation \<Rightarrow> (nat \<times> layout) list \<Rightarrow> (nat \<times> layout) list \<Rightarrow> (nat \<times> layout) list \<times> presentation"
where
  "classify_layouts prs [] acc = (acc, prs)"
| "classify_layouts prs ((i, l) # rest) acc =
     (let layout_name = lower (lname l) in
      if any_in pure_title_keywords layout_name then classify_layouts prs rest acc
      else if any_in content_keywords layout_name then classify_layouts prs rest (acc @ [(i, l)])
      else (case has_content_placeholders prs l of
              (has_content, prs') \<Rightarrow>
                if has_content then classify_layouts prs' rest (acc @ [(i, l)])
                else if \<not> any_in title_keywords layout_name
                then classify_layouts prs' rest (acc @ [(i, l)])
                else classify_layouts prs' rest acc))"

text \<open>What the loop body decides for one layout: whether it appends the layout.\<close>

definition is_content_layout :: "presentation \<Rightarrow> layout \<Rightarrow> bool" where
  "is_content_layout prs l =
     (let layout_name = lower (lname l) in
      if any_in pure_title_keywords layout_name then False
      else if any_in content_keywords layout_name then True
      else if fst (has_content_placeholders prs l) then True
      else \<not> any_in title_keywords layout_name)"

text \<open>The default layouts used when the loop found none: indices below
  \<open>min(len(slide_layouts), 3)\<close>, the first skipped.\<close>

definition default_layouts :: "layout list \<Rightarrow> (nat \<times> layout) list" where
  "default_layouts ls = map (\<lambda>i. (i, ls ! i)) (filter (\<lambda>i. i > 0) [0..<min (length ls) 3])"

definition identify_content_layouts :: "generator \<Rightarrow> generator" where
  "identify_content_layouts g =
     (let ls = slide_layouts (presentation g) in
      case classify_layouts (presentation g) (enumerate 0 ls) [] of
        (found, prs') \<Rightarrow>
          g\<lparr>presentation := prs',
            content_layouts := (if found = [] then default_layouts ls else found)\<rparr>)"

section \<open>Layout selection\<close>

definition get_next_content_layout :: "generator \<Rightarrow> (py_error + layout) \<times> generator" where
  "get_next_content_layout g =
     (if content_layouts g = [] then
        (let ls = slide_layouts (presentation g) in
         if length ls > 1 then (Inr (ls ! 1), g)
         else (case ls of [] \<Rightarrow> (Inl IndexError, g) | l # _ \<Rightarrow> (Inr l, g)))
      else if current_layout_index g < length (content_layouts g) then
        (Inr (snd (content_layouts g ! current_layout_index g)),
         g\<lparr>current_layout_index := (current_layout_index g + 1) mod length (content_layouts g)\<rparr>)
      else (Inl IndexError, g))"

definition layout_priority :: "pystr \<Rightarrow> nat \<Rightarrow> pystr \<Rightarrow> nat" where
  "layout_priority slide_title num_points layout_name =
     (if num_points \<le> 2 \<and> str_in (ustr ''two content'') layout_name then 3
      else if num_points > 4 \<and> str_in (ustr ''bullet'') layout_name then 3
      else if str_in (ustr ''comparison'') layout_name
              \<and> (str_in (ustr ''vs'') slide_title \<or> str_in (ustr ''comparison'') slide_title) then 4
      else if str_in (ustr ''section'') layout_name
              \<and> (str_in (ustr ''introduction'') slide_title \<or> str_in (ustr ''conclusion'') slide_title)
      then 2
      else 1)"

definition suitable_layouts :: "generator \<Rightarrow> slide_data \<Rightarrow> (nat \<times> layout \<times> nat) list" where
  "suitable_layouts g sd =
     (let slide_title = lower (get_default (sd_title sd) []);
          num_points = length (sd_points sd)
      in map (\<lambda>(layout_index, l).
                (layout_index, l, layout_priority slide_title num_points (lower (lname l))))
             (content_layouts g))"

definition get_smart_layout :: "generator \<Rightarrow> slide_data \<Rightarrow> (py_error + layout) \<times> generator" where
  "get_smart_layout g sd =
     (if content_layouts g = [] then get_next_content_layout g
      else (case sort_reverse (\<lambda>x. snd (snd x)) (suitable_layouts g sd) of
              best # _ \<Rightarrow> (Inr (fst (snd best)), g)
            | [] \<Rightarrow> get_next_content_layout g))"

section \<open>Filling a content slide\<close>

text \<open>The write of a title: \<open>text_frame.text = t\<close> when the shape has a text frame,
  else \<open>text = t\<close> when it has that attribute, else nothing.\<close>

definition write_title :: "pystr \<Rightarrow> shape \<Rightarrow> shape" where
  "write_title t s =
     (if has_text_frame s then set_text t s else if has_text s then set_text t s else s)"

text \<open>The three title methods of \<open>_create_content_slide\<close>: \<open>slide.placeholders[0]\<close>,
  then \<open>slide.shapes.title\<close>, then the scan for a placeholder with \<open>idx == 0\<close>.  The
  result is the shapes and \<open>title_set\<close>.\<close>

definition set_title :: "shape list \<Rightarrow> pystr \<Rightarrow> shape list \<times> bool" where
  "set_title shs t =
     (case placeholder_at shs 0 of
        Some i \<Rightarrow> (shs[i := write_title t (shs ! i)], True)
      | None \<Rightarrow>
          (case placeholder_at shs 0 of
             Some i \<Rightarrow> (shs[i := set_text t (shs ! i)], True)
           | None \<Rightarrow>
               (case first_index (\<lambda>s. is_placeholder s \<and> ph_idx s = 0) shs of
                  Some i \<Rightarrow> (shs[i := write_title t (shs ! i)], True)
                | None \<Rightarrow> (shs, False))))"

text \<open>Strategies 1 to 4: the position in \<open>slide.shapes\<close> of \<open>content_placeholder\<close>.\<close>

definition strategy1 :: "shape list \<Rightarrow> nat option" where
  "strategy1 shs = first_index (\<lambda>s. is_placeholder s \<and> ph_idx s = 1 \<and> has_text_frame s) shs"

definition strategy2 :: "shape list \<Rightarrow> nat option" where
  "strategy2 shs =
     first_index (\<lambda>s. is_placeholder s \<and> ph_idx s > 0 \<and> has_text_frame s
        \<and> (let shape_name = lower (sname s)
           in str_in (ustr ''content'') shape_name \<and> \<not> str_in (ustr ''picture'') shape_name)) shs"

definition strategy3 :: "shape list \<Rightarrow> nat option" where
  "strategy3 shs =
     first_index (\<lambda>s. is_placeholder s \<and> ph_idx s > 0 \<and> has_text_frame s
        \<and> (let shape_name = lower (sname s)
           in \<not> any_in (map ustr [''picture'', ''image'', ''photo'', ''chart'', ''table''])
                  shape_name)) shs"

definition strategy4 :: "shape list \<Rightarrow> nat option" where
  "strategy4 shs = first_index (\<lambda>s. is_placeholder s \<and> ph_idx s > 0 \<and> has_text_frame s) shs"

definition find_content_placeholder :: "shape list \<Rightarrow> nat option" where
  "find_content_placeholder shs =
     (case strategy1 shs of
        Some i \<Rightarrow> Some i
      | None \<Rightarrow>
          (case strategy2 shs of
             Some i \<Rightarrow> Some i
           | None \<Rightarrow>
               (case strategy3 shs of
                  Some i \<Rightarrow> Some i
                | None \<Rightarrow> strategy4 shs)))"

text \<open>The loop \<open>for i, point in enumerate(points)\<close>: the first point goes to the
  paragraph at \<open>start\<close>, each later one to a paragraph added at the end; \<open>f\<close> makes the
  paragraph's text from the point.\<close>

fun write_more :: "(pystr \<Rightarrow> pystr) \<Rightarrow> pystr list \<Rightarrow> pystr list \<Rightarrow> pystr list" where
  "write_more f ps [] = ps"
| "write_more f ps (point # points) =
     write_more f ((add_paragraph ps)[length ps := f point]) points"

definition write_points :: "(pystr \<Rightarrow> pystr) \<Rightarrow> pystr list \<Rightarrow> nat \<Rightarrow> pystr list \<Rightarrow> pystr list" where
  "write_points f ps start points =
     (case points of [] \<Rightarrow> ps | point # rest \<Rightarrow> write_more f (ps[start := f point]) rest)"

text \<open>Method 2: the placeholder is cleared and takes the points, \<open>p.text = point\<close>.\<close>

definition write_placeholder :: "pystr list \<Rightarrow> shape \<Rightarrow> shape" where
  "write_placeholder points s =
     s\<lparr>paragraphs :=
         write_points (\<lambda>point. paragraph_text point) (tf_clear (paragraphs s)) 0 points\<rparr>"

text \<open>Method 3, on the text frame it settles on: cleared when its text is shorter than
  10, extended by a new paragraph otherwise; the points are written with the bullet.\<close>

definition write_alternative :: "pystr list \<Rightarrow> shape \<Rightarrow> shape" where
  "write_alternative points s =
     (let current_text = strip (tf_text s) in
      if length current_text < 10
      then s\<lparr>paragraphs :=
               write_points (\<lambda>point. paragraph_text (bullet_point point))
                 (tf_clear (paragraphs s)) 0 points\<rparr>
      else s\<lparr>paragraphs :=
               write_points (\<lambda>point. paragraph_text (bullet_point point))
                 (add_paragraph (paragraphs s)) (length (paragraphs s)) points\<rparr>)"

text \<open>Method 3, the loop over \<open>slide.shapes\<close>: a shape without a text frame, or whose
  stripped text equals the stripped title, is passed over; the first other one is
  written and ends the loop.\<close>

fun alternative_text_frame :: "pystr \<Rightarrow> pystr list \<Rightarrow> shape list \<Rightarrow> shape list \<times> bool" where
  "alternative_text_frame slide_title points [] = ([], False)"
| "alternative_text_frame slide_title points (s # rest) =
     (if has_text_frame s \<and> strip (tf_text s) \<noteq> strip slide_title
      then (write_alternative points s # rest, True)
      else (case alternative_text_frame slide_title points rest of
              (rest', added) \<Rightarrow> (s # rest', added)))"

text \<open>
  \<open>from pptx.shapes.textbox import TextBox\<close>, the first statement of method 4:
  python-pptx has no module \<open>pptx.shapes.textbox\<close> (its text boxes are made by
  \<open>shapes.add_textbox\<close> in \<open>pptx.shapes.shapetree\<close>), so the statement raises.
\<close>

definition import_TextBox :: "py_error + unit" where
  "import_TextBox = Inl ImportError"

text \<open>Method 4, the body of its \<open>try\<close>: after the import, a new text box at (1in, 2in)
  of 8in by 4in, cleared, with the bulleted points.\<close>

definition new_text_box :: "pystr list \<Rightarrow> shape list \<Rightarrow> py_error + shape list" where
  "new_text_box points shs =
     (case import_TextBox of
        Inl e \<Rightarrow> Inl e
      | Inr _ \<Rightarrow>
          (let shs' = add_textbox shs (Inches 1) (Inches 2) (Inches 8) (Inches 4);
               k = length shs
           in Inr (shs'[k := (shs' ! k)\<lparr>paragraphs :=
                      write_points (\<lambda>point. paragraph_text (bullet_point point))
                        (tf_clear (paragraphs (shs' ! k))) 0 points\<rparr>])))"

text \<open>The body part of \<open>_create_content_slide\<close>; the result is the shapes and
  \<open>content_added\<close>.  An exception in method 4 is caught and logged, and leaves
  \<open>content_added\<close> as it was.\<close>

definition add_content :: "slide_data \<Rightarrow> shape list \<Rightarrow> shape list \<times> bool" where
  "add_content sd shs =
     (let points = sd_points sd in
      if points \<noteq> [] then
        (case (case find_content_placeholder shs of
                 Some i \<Rightarrow> (shs[i := write_placeholder points (shs ! i)], True)
               | None \<Rightarrow> (shs, False)) of
           (shs1, content_added1) \<Rightarrow>
             (case (if \<not> content_added1
                    then alternative_text_frame (get_default (sd_title sd) []) points shs1
                    else (shs1, content_added1)) of
                (shs2, content_added2) \<Rightarrow>
                  if \<not> content_added2
                  then (case new_text_box points shs2 of
                          Inr shs3 \<Rightarrow> (shs3, True)
                        | Inl e \<Rightarrow> (shs2, content_added2))
                  else (shs2, content_added2)))
      else (shs, False))"

text \<open>The speaker notes: \<open>notes_text_frame.text = notes_text\<close>, kept as the text frame
  reads them back.\<close>

definition add_notes :: "slide_data \<Rightarrow> slide \<Rightarrow> slide" where
  "add_notes sd s =
     (let notes = get_default (sd_notes sd) [] in
      if notes \<noteq> []
      then s\<lparr>notes_text := Some (join_lines (map paragraph_text (split_lines notes)))\<rparr>
      else s)"

text \<open>\<open>_create_content_slide\<close>.  The slide that \<open>add_slide\<close> appended is the object the
  rest of the method writes to, so the last slide of the sequence is replaced by the
  filled one.\<close>

definition create_content_slide :: "generator \<Rightarrow> slide_data \<Rightarrow> (py_error + slide) \<times> generator" where
  "create_content_slide g sd =
     (case get_smart_layout g sd of
        (Inl e, g1) \<Rightarrow> (Inl e, g1)
      | (Inr content_layout, g1) \<Rightarrow>
          (case add_slide (presentation g1) content_layout of
             Inl e \<Rightarrow> (Inl e, g1)
           | Inr (s, prs1) \<Rightarrow>
               (case set_title (shapes s) (get_default (sd_title sd) (ustr ''Slide Title'')) of
                  (shs1, title_set) \<Rightarrow>
                    (case add_content sd shs1 of
                       (shs2, content_added) \<Rightarrow>
                         (let s' = add_notes sd (s\<lparr>shapes := shs2\<rparr>)
                          in (Inr s',
                              g1\<lparr>presentation :=
                                   prs1\<lparr>slides := butlast (slides prs1) @ [s']\<rparr>\<rparr>))))))"

section \<open>Assembling the presentation\<close>

text \<open>The loop \<open>while len(slides) > 0\<close> that deletes the first slide.\<close>

fun clear_slides :: "slide list \<Rightarrow> slide list" where
  "clear_slides [] = []"
| "clear_slides (s # ss) = clear_slides ss"

text \<open>The generator as \<open>create_presentation\<close> has it before the title slide: \<open>None\<close>
  when loading the template raised.\<close>

definition new_generator :: "presentation \<Rightarrow> generator" where
  "new_generator prs = \<lparr>presentation = prs, content_layouts = [], current_layout_index = 0\<rparr>"

definition open_presentation :: "presentation \<Rightarrow> template_source \<Rightarrow> generator option" where
  "open_presentation default_prs src =
     (case src of
        Unreadable \<Rightarrow> None
      | NoTemplate \<Rightarrow> Some (new_generator default_prs)
      | Template prs \<Rightarrow>
          (let g = identify_content_layouts (new_generator prs)
           in Some (g\<lparr>presentation :=
                       (presentation g)\<lparr>slides := clear_slides (slides (presentation g))\<rparr>\<rparr>)))"

text \<open>The title slide: the last placeholder with \<open>idx == 0\<close> (else \<open>shapes.title\<close>) takes
  the title, the last one with \<open>idx == 1\<close> the date line.\<close>

definition fill_title_slide :: "pystr \<Rightarrow> outline_data \<Rightarrow> shape list \<Rightarrow> shape list" where
  "fill_title_slide today od shs =
     (let title_shape =
            (case last_index (\<lambda>s. is_placeholder s \<and> ph_idx s = 0) shs of
               Some i \<Rightarrow> Some i
             | None \<Rightarrow> placeholder_at shs 0);
          subtitle_shape = last_index (\<lambda>s. is_placeholder s \<and> ph_idx s \<noteq> 0 \<and> ph_idx s = 1) shs;
          shs1 =
            (case title_shape of
               Some i \<Rightarrow>
                 shs[i := write_title (get_default (o_title od) (ustr ''Generated Presentation''))
                            (shs ! i)]
             | None \<Rightarrow> shs)
      in (case subtitle_shape of
            Some j \<Rightarrow> shs1[j := write_title (ustr ''Generated on '' @ today) (shs1 ! j)]
          | None \<Rightarrow> shs1))"

text \<open>The loop over \<open>outline_data.get("slides", [])\<close>; an exception ends it, and
  \<open>create_presentation\<close> returns \<open>False\<close>.\<close>

fun create_content_slides :: "generator \<Rightarrow> slide_data list \<Rightarrow> bool \<times> generator" where
  "create_content_slides g [] = (True, g)"
| "create_content_slides g (sd # sds) =
     (case create_content_slide g sd of
        (Inl e, g') \<Rightarrow> (False, g')
      | (Inr s, g') \<Rightarrow> create_content_slides g' sds)"

text \<open>\<open>create_presentation\<close>: \<open>today\<close> is the formatted date, \<open>default_prs\<close> what
  \<open>Presentation()\<close> gives without a template.\<close>

definition create_presentation ::
  "pystr \<Rightarrow> presentation \<Rightarrow> template_source \<Rightarrow> outline_data \<Rightarrow> bool \<times> generator option"
where
  "create_presentation today default_prs src od =
     (case open_presentation default_prs src of
        None \<Rightarrow> (False, None)
      | Some g0 \<Rightarrow>
          (case slide_layouts (presentation g0) of
             [] \<Rightarrow> (False, Some g0)
           | title_layout # _ \<Rightarrow>
               (case add_slide (presentation g0) title_layout of
                  Inl e \<Rightarrow> (False, Some g0)
                | Inr (title_slide, prs1) \<Rightarrow>
                    (let title_slide' =
                           title_slide\<lparr>shapes := fill_title_slide today od (shapes title_slide)\<rparr>;
                         g1 = g0\<lparr>presentation :=
                                   prs1\<lparr>slides := butlast (slides prs1) @ [title_slide']\<rparr>\<rparr>
                     in (case create_content_slides g1 (o_slides od) of
                           (ok, g2) \<Rightarrow> (ok, Some g2))))))"

section \<open>Example documents\<close>

text \<open>A title placeholder and a subtitle or body placeholder, as \<open>add_slide\<close> clones
  them from a layout: empty, and with a text frame.\<close>

definition title_ph :: shape where
  "title_ph = \<lparr>is_placeholder = True, ph_idx = 0, has_text_frame = True, has_text = True,
     sname = ustr ''Title 1'', paragraphs = [[]], box = None\<rparr>"

definition body_ph :: shape where
  "body_ph = \<lparr>is_placeholder = True, ph_idx = 1, has_text_frame = True, has_text = True,
     sname = ustr ''Content Placeholder 2'', paragraphs = [[]], box = None\<rparr>"

definition named_layout :: "string \<Rightarrow> shape list \<Rightarrow> layout" where
  "named_layout n shs = \<lparr>lname = ustr n, new_shapes = Some shs\<rparr>"


definition old_slide :: slide where
  "old_slide = \<lparr>slide_layout = named_layout ''Title Slide'' [title_ph, body_ph],
     shapes = [title_ph, body_ph], notes_text = None\<rparr>"

definition abc_points :: "pystr list" where
  "abc_points = [ustr ''A'', ustr ''B'', ustr ''C'']"


definition tie_presentation :: presentation where
  "tie_presentation =
     \<lparr>slide_layouts = [named_layout ''Title and Content'' [title_ph, body_ph],
                       named_layout ''Comparison'' [title_ph, body_ph],
                       named_layout ''Picture Comparison'' [title_ph, body_ph]],
      slides = []\<rparr>"

definition vs_slide :: slide_data where
  "vs_slide = \<lparr>sd_title = Some (ustr ''X vs Y''), sd_points = [ustr ''a'', ustr ''b''],
     sd_notes = None\<rparr>"

definition abc_slide :: slide_data where
  "abc_slide = \<lparr>sd_title = Some (ustr ''T''), sd_points = abc_points, sd_notes = None\<rparr>"

definition titled :: "shape list \<Rightarrow> shape list" where
  "titled shs = fst (set_title shs (ustr ''T''))"

definition empty_slide :: slide_data where
  "empty_slide = \<lparr>sd_title = Some (ustr ''T''), sd_points = [], sd_notes = Some (ustr ''say'')\<rparr>"

definition untitled_abc_slide :: slide_data where
  "untitled_abc_slide = \<lparr>sd_title = None, sd_points = abc_points, sd_notes = None\<rparr>"

definition title_only_generator :: generator where
  "title_only_generator =
     identify_content_layouts (new_generator
       \<lparr>slide_layouts = [named_layout ''Title Only'' [title_ph]], slides = []\<rparr>)"

definition one_layout_generator :: generator where
  "one_layout_generator =
     identify_content_layouts (new_generator
       \<lparr>slide_layouts = [named_layout ''Title and Content'' [title_ph, body_ph]],
        slides = []\<rparr>)"

text \<open>What a caller sees of the result of \<open>create_presentation\<close>: the slides and the
  layouts of the presentation it built (none when no presentation was opened).\<close>

definition result_slides :: "bool \<times> generator option \<Rightarrow> slide list" where
  "result_slides r = (case snd r of None \<Rightarrow> [] | Some g \<Rightarrow> slides (presentation g))"

definition result_layouts :: "bool \<times> generator option \<Rightarrow> layout list" where
  "result_layouts r = (case snd r of None \<Rightarrow> [] | Some g \<Rightarrow> slide_layouts (presentation g))"

text \<open>The layouts \<open>create_presentation\<close> works with: the template's, or the default
  presentation's.\<close>

definition source_layouts :: "presentation \<Rightarrow> template_source \<Rightarrow> layout list" where
  "source_layouts default_prs src =
     (case src of Template prs \<Rightarrow> slide_layouts prs | _ \<Rightarrow> slide_layouts default_prs)"

definition a_date :: pystr where
  "a_date = ustr ''November 04, 2026''"

definition default_presentation :: presentation where
  "default_presentation =
     \<lparr>slide_layouts = [named_layout ''Title Slide'' [title_ph, body_ph],
                       named_layout ''Title and Content'' [title_ph, body_ph]],
      slides = []\<rparr>"

definition report_outline :: outline_data where
  "report_outline = \<lparr>o_title = Some (ustr ''Report''), o_slides = [abc_slide, empty_slide]\<rparr>"

definition blank_first_template :: presentation where
  "blank_first_template =
     \<lparr>slide_layouts = [named_layout ''Blank'' [],
                       named_layout ''Title Slide'' [title_ph, body_ph]],
      slides = [old_slide, old_slide, old_slide, old_slide, old_slide]\<rparr>"

definition titles_only_template :: presentation where
  "titles_only_template =
     \<lparr>slide_layouts = [named_layout ''Title Slide'' [title_ph, body_ph],
                       named_layout ''Title Only'' [title_ph]],
      slides = []\<rparr>"

definition single_layout_template :: presentation where
  "single_layout_template =
     \<lparr>slide_layouts = [named_layout ''Title and Content'' [title_ph, body_ph]],
      slides = [old_slide]\<rparr>"

section \<open>Lemmas on the library operations and the loops\<close>




lemma first_index_None: "first_index P xs = None \<longleftrightarrow> \<not> list_ex P xs"
  by (induction xs) simp_all


lemma alternative_text_frame_None:
  "first_index (\<lambda>s. has_text_frame s \<and> strip (tf_text s) \<noteq> strip t) shs = None
   \<Longrightarrow> alternative_text_frame t points shs = (shs, False)"
  by (induction shs) (auto split: if_splits)


lemma remove_added_slide: "remove_last_slide (prs\<lparr>slides := slides prs @ [s]\<rparr>) = prs"
  by (simp add: remove_last_slide_def)

lemma has_content_placeholders_presentation: "snd (has_content_placeholders prs l) = prs"
  by (simp add: has_content_placeholders_def add_slide_def Let_def remove_added_slide
      split: option.splits)


lemma classify_layouts_presentation: "snd (classify_layouts prs els acc) = prs"
proof (induction prs els acc rule: classify_layouts.induct)
  case (1 prs acc)
  then show ?case by simp
next
  case (2 prs i l rest acc)
  obtain b prs' where p: "has_content_placeholders prs l = (b, prs')"
    by (cases "has_content_placeholders prs l")
  with has_content_placeholders_presentation [of prs l] have "prs' = prs" by simp
  with 2 p show ?case by (simp add: Let_def)
qed

lemma classify_layouts_found:
  "fst (classify_layouts prs els acc) =
     acc @ filter (\<lambda>(i, l). is_content_layout prs l) els"
proof (induction prs els acc rule: classify_layouts.induct)
  case (1 prs acc)
  then show ?case by simp
next
  case (2 prs i l rest acc)
  obtain b prs' where p: "has_content_placeholders prs l = (b, prs')"
    by (cases "has_content_placeholders prs l")
  with has_content_placeholders_presentation [of prs l] have "prs' = prs" by simp
  with 2 p show ?case by (auto simp add: Let_def is_content_layout_def)
qed

lemma last_insort_key:
  "sorted (map key ys) \<Longrightarrow> ys \<noteq> [] \<Longrightarrow>
   last (insort_key key x ys) = (if key (last ys) < key x then x else last ys)"
proof (induction ys)
  case Nil
  then show ?case by simp
next
  case (Cons y ys)
  show ?case
  proof (cases "ys = []")
    case True
    then show ?thesis by auto
  next
    case False
    from Cons.prems False have le: "key y \<le> key (last ys)" by simp
    from Cons.prems have srt: "sorted (map key ys)" by simp
    note IH = Cons.IH [OF srt False]
    show ?thesis
    proof (cases "key x \<le> key y")
      case True
      with le have "\<not> key (last ys) < key x" by simp
      with True False show ?thesis by simp
    next
      case no: False
      with False have "last (insort_key key x (y # ys)) = last (insort_key key x ys)"
        by (cases ys) auto
      with IH False show ?thesis by simp
    qed
  qed
qed

lemma sort_reverse_length: "length (sort_reverse key xs) = length xs"
  by (simp add: sort_reverse_def)

lemma hd_sort_reverse_single: "hd (sort_reverse key [x]) = x"
  by (simp add: sort_reverse_def)

lemma hd_sort_reverse_snoc:
  assumes "xs \<noteq> []"
  shows "hd (sort_reverse key (xs @ [x])) =
     (if key (hd (sort_reverse key xs)) < key x then x else hd (sort_reverse key xs))"
proof -
  let ?ys = "sort_key key (rev xs)"
  have ne: "?ys \<noteq> []" using assms by (metis length_sort length_rev length_0_conv)
  have "hd (sort_reverse key (xs @ [x])) = last (insort_key key x ?ys)"
    by (simp add: sort_reverse_def hd_rev)
  also have "\<dots> = (if key (last ?ys) < key x then x else last ?ys)"
    using ne by (simp add: last_insort_key)
  also have "last ?ys = hd (sort_reverse key xs)"
    using ne by (simp add: sort_reverse_def hd_rev)
  finally show ?thesis .
qed

lemma hd_sort_reverse_first_best:
  "xs \<noteq> [] \<Longrightarrow>
   \<exists>i<length xs. hd (sort_reverse key xs) = xs ! i
      \<and> (\<forall>j<length xs. key (xs ! j) \<le> key (xs ! i))
      \<and> (\<forall>j<i. key (xs ! j) < key (xs ! i))"
proof (induction xs rule: rev_induct)
  case Nil
  then show ?case by simp
next
  case (snoc x xs)
  show ?case
  proof (cases "xs = []")
    case True
    then show ?thesis by (simp add: hd_sort_reverse_single)
  next
    case False
    from snoc.IH [OF False] obtain i where i: "i < length xs"
      "hd (sort_reverse key xs) = xs ! i"
      "\<forall>j<length xs. key (xs ! j) \<le> key (xs ! i)"
      "\<forall>j<i. key (xs ! j) < key (xs ! i)" by blast
    show ?thesis
    proof (cases "key (xs ! i) < key x")
      case True
      have "hd (sort_reverse key (xs @ [x])) = (xs @ [x]) ! length xs"
        using False True i(2) by (simp add: hd_sort_reverse_snoc)
      moreover have "\<forall>j<length (xs @ [x]). key ((xs @ [x]) ! j) \<le> key ((xs @ [x]) ! length xs)"
        using True i(3) by (auto simp: nth_append less_Suc_eq intro: less_imp_le le_less_trans)
      moreover have "\<forall>j<length xs. key ((xs @ [x]) ! j) < key ((xs @ [x]) ! length xs)"
        using True i(3) by (auto simp: nth_append intro: le_less_trans)
      ultimately show ?thesis by (intro exI [of _ "length xs"]) simp
    next
      case False
      have "hd (sort_reverse key (xs @ [x])) = (xs @ [x]) ! i"
        using \<open>xs \<noteq> []\<close> False i(1,2) by (simp add: hd_sort_reverse_snoc nth_append)
      moreover have "\<forall>j<length (xs @ [x]). key ((xs @ [x]) ! j) \<le> key ((xs @ [x]) ! i)"
        using False i(1,3) by (auto simp: nth_append less_Suc_eq)
      moreover have "\<forall>j<i. key ((xs @ [x]) ! j) < key ((xs @ [x]) ! i)"
        using i(1,4) by (auto simp: nth_append)
      ultimately show ?thesis using i(1) by (intro exI [of _ i]) simp
    qed
  qed
qed

lemma first_best_unique:
  fixes key :: "'a \<Rightarrow> nat"
  assumes "i < length xs" "\<forall>j<length xs. key (xs ! j) \<le> key (xs ! i)" "\<forall>j<i. key (xs ! j) < key (xs ! i)"
    and "k < length xs" "\<forall>j<length xs. key (xs ! j) \<le> key (xs ! k)" "\<forall>j<k. key (xs ! j) < key (xs ! k)"
  shows "i = k"
proof (rule ccontr)
  assume "i \<noteq> k"
  then consider "i < k" | "k < i" by arith
  then show False
  proof cases
    case 1
    with assms(6) have "key (xs ! i) < key (xs ! k)" by simp
    moreover from assms(2,4) have "key (xs ! k) \<le> key (xs ! i)" by simp
    ultimately show False by simp
  next
    case 2
    with assms(3) have "key (xs ! k) < key (xs ! i)" by simp
    moreover from assms(5,1) have "key (xs ! i) \<le> key (xs ! k)" by simp
    ultimately show False by simp
  qed
qed

lemma suitable_layouts_length: "length (suitable_layouts g sd) = length (content_layouts g)"
  by (simp add: suitable_layouts_def)

lemma suitable_layouts_nth:
  "i < length (content_layouts g) \<Longrightarrow>
   fst (snd (suitable_layouts g sd ! i)) = snd (content_layouts g ! i)"
  by (simp add: suitable_layouts_def split: prod.splits)

lemma get_smart_layout_nonempty:
  assumes "content_layouts g \<noteq> []"
  shows "get_smart_layout g sd = (Inr (fst (snd (hd (sort_reverse (\<lambda>x. snd (snd x)) (suitable_layouts g sd))))), g)"
proof -
  have "length (sort_reverse (\<lambda>x. snd (snd x)) (suitable_layouts g sd)) \<noteq> 0"
    using assms by (simp add: sort_reverse_length suitable_layouts_length)
  then obtain b rest where "sort_reverse (\<lambda>x. snd (snd x)) (suitable_layouts g sd) = b # rest"
    by (cases "sort_reverse (\<lambda>x. snd (snd x)) (suitable_layouts g sd)") auto
  with assms show ?thesis by (simp add: get_smart_layout_def)
qed

lemma get_smart_layout_at_first_best:
  assumes "i < length (content_layouts g)"
    and "\<forall>j<length (content_layouts g).
           snd (snd (suitable_layouts g sd ! j)) \<le> snd (snd (suitable_layouts g sd ! i))"
    and "\<forall>j<i. snd (snd (suitable_layouts g sd ! j)) < snd (snd (suitable_layouts g sd ! i))"
  shows "get_smart_layout g sd = (Inr (snd (content_layouts g ! i)), g)"
proof -
  let ?xs = "suitable_layouts g sd"
  let ?key = "\<lambda>x::nat \<times> layout \<times> nat. snd (snd x)"
  have len: "length ?xs = length (content_layouts g)" by (rule suitable_layouts_length)
  with assms(1) have ne: "?xs \<noteq> []" by auto
  from hd_sort_reverse_first_best [OF ne, of ?key] obtain k where k: "k < length ?xs"
    "hd (sort_reverse ?key ?xs) = ?xs ! k"
    "\<forall>j<length ?xs. ?key (?xs ! j) \<le> ?key (?xs ! k)"
    "\<forall>j<k. ?key (?xs ! j) < ?key (?xs ! k)" by blast
  have "i = k"
    using assms k(1,3,4) len by (intro first_best_unique [of i ?xs ?key k]) simp_all
  moreover from assms(1) have "content_layouts g \<noteq> []" by auto
  ultimately show ?thesis
    using k(2) assms(1) by (simp add: get_smart_layout_nonempty suitable_layouts_nth)
qed

lemma get_smart_layout_generator: "snd (get_smart_layout g sd) = g"
proof (cases "content_layouts g = []")
  case True
  then show ?thesis
    by (simp add: get_smart_layout_def get_next_content_layout_def Let_def split: list.splits)
next
  case False
  then show ?thesis by (simp add: get_smart_layout_nonempty)
qed

lemma get_smart_layout_member:
  assumes "get_smart_layout g sd = (Inr l, g')"
    and "snd ` set (content_layouts g) \<subseteq> set (slide_layouts (presentation g))"
  shows "l \<in> set (slide_layouts (presentation g))"
proof (cases "content_layouts g = []")
  case True
  with assms(1) show ?thesis
    by (auto simp add: get_smart_layout_def get_next_content_layout_def Let_def
        split: list.splits if_splits)
next
  case False
  let ?xs = "suitable_layouts g sd"
  let ?key = "\<lambda>x::nat \<times> layout \<times> nat. snd (snd x)"
  have len: "length ?xs = length (content_layouts g)" by (rule suitable_layouts_length)
  with False have ne: "?xs \<noteq> []" by auto
  from hd_sort_reverse_first_best [OF ne, of ?key] obtain k where k: "k < length ?xs"
    "hd (sort_reverse ?key ?xs) = ?xs ! k" by blast
  with assms(1) False len have "l = snd (content_layouts g ! k)"
    by (auto simp add: get_smart_layout_nonempty suitable_layouts_nth)
  moreover have "content_layouts g ! k \<in> set (content_layouts g)"
    using k(1) len by simp
  ultimately show ?thesis using assms(2) by blast
qed

lemma identify_content_layouts_eq:
  "identify_content_layouts g =
     g\<lparr>content_layouts :=
         (if filter (\<lambda>(i, l). is_content_layout (presentation g) l)
                (enumerate 0 (slide_layouts (presentation g))) = []
          then default_layouts (slide_layouts (presentation g))
          else filter (\<lambda>(i, l). is_content_layout (presentation g) l)
                 (enumerate 0 (slide_layouts (presentation g))))\<rparr>"
proof -
  let ?c = "classify_layouts (presentation g) (enumerate 0 (slide_layouts (presentation g))) []"
  have "?c = (fst ?c, snd ?c)" by simp
  then have "?c = (filter (\<lambda>(i, l). is_content_layout (presentation g) l)
                     (enumerate 0 (slide_layouts (presentation g))), presentation g)"
    by (simp only: classify_layouts_found classify_layouts_presentation append_Nil)
  then show ?thesis by (simp add: identify_content_layouts_def Let_def)
qed

lemma identify_content_layouts_presentation:
  "presentation (identify_content_layouts g) = presentation g"
  by (simp add: identify_content_layouts_eq)



lemmas keyword_eval = any_in_def pure_title_keywords_def content_keywords_def title_keywords_def
  lower_def ustr_def lower_cp_def

lemma name_title_slide: "any_in pure_title_keywords (lower (ustr ''Title Slide''))"
  by (simp add: keyword_eval)

lemma name_title_and_content:
  "\<not> any_in pure_title_keywords (lower (ustr ''Title and Content''))"
  "any_in content_keywords (lower (ustr ''Title and Content''))"
  by (simp_all add: keyword_eval)

lemma name_comparison:
  "\<not> any_in pure_title_keywords (lower (ustr ''Comparison''))"
  "any_in content_keywords (lower (ustr ''Comparison''))"
  by (simp_all add: keyword_eval)

lemma name_picture_comparison:
  "\<not> any_in pure_title_keywords (lower (ustr ''Picture Comparison''))"
  "any_in content_keywords (lower (ustr ''Picture Comparison''))"
  by (simp_all add: keyword_eval)

lemma priority_vs_comparison:
  "layout_priority (lower (ustr ''X vs Y'')) k (lower (ustr ''Comparison'')) = 4"
  by (simp add: layout_priority_def lower_def ustr_def lower_cp_def)

lemma priority_vs_picture_comparison:
  "layout_priority (lower (ustr ''X vs Y'')) k (lower (ustr ''Picture Comparison'')) = 4"
  by (simp add: layout_priority_def lower_def ustr_def lower_cp_def)

lemma priority_vs_title_and_content:
  "layout_priority (lower (ustr ''X vs Y'')) k (lower (ustr ''Title and Content'')) = 1"
  by (simp add: layout_priority_def lower_def ustr_def lower_cp_def)

lemma tie_content_layouts:
  "content_layouts (identify_content_layouts (new_generator tie_presentation)) =
     [(0, named_layout ''Title and Content'' [title_ph, body_ph]),
      (1, named_layout ''Comparison'' [title_ph, body_ph]),
      (2, named_layout ''Picture Comparison'' [title_ph, body_ph])]"
  by (simp add: identify_content_layouts_eq new_generator_def is_content_layout_def Let_def
      enumerate_simps tie_presentation_def named_layout_def
      name_title_and_content name_comparison name_picture_comparison)

lemma tie_suitable_layouts:
  "suitable_layouts (identify_content_layouts (new_generator tie_presentation)) vs_slide =
     [(0, named_layout ''Title and Content'' [title_ph, body_ph], 1),
      (1, named_layout ''Comparison'' [title_ph, body_ph], 4),
      (2, named_layout ''Picture Comparison'' [title_ph, body_ph], 4)]"
  unfolding suitable_layouts_def tie_content_layouts
  by (simp add: vs_slide_def named_layout_def get_default_def Let_def
      priority_vs_comparison priority_vs_picture_comparison priority_vs_title_and_content)

lemma tie_index:
  "current_layout_index (identify_content_layouts (new_generator tie_presentation)) = 0"
  by (simp add: identify_content_layouts_eq new_generator_def)




lemma new_text_box_raises: "new_text_box points shs = Inl ImportError"
  by (simp add: new_text_box_def import_TextBox_def)



lemma add_content_no_region:
  "sd_points sd \<noteq> [] \<Longrightarrow> find_content_placeholder shs = None \<Longrightarrow>
   first_index (\<lambda>s. has_text_frame s \<and> strip (tf_text s) \<noteq> strip (get_default (sd_title sd) []))
     shs = None \<Longrightarrow>
   add_content sd shs = (shs, False)"
  by (simp add: add_content_def Let_def alternative_text_frame_None new_text_box_raises)

lemma add_content_no_points: "sd_points sd = [] \<Longrightarrow> add_content sd shs = (shs, False)"
  by (simp add: add_content_def)

lemmas text_eval = paragraph_text_def paragraph_cp_def ustr_def

lemma set_title_title_ph:
  "fst (set_title (title_ph # rest) (ustr ''T'')) = title_ph\<lparr>paragraphs := [ustr ''T'']\<rparr> # rest"
  "fst (set_title (title_ph # rest) (ustr ''Slide Title''))
     = title_ph\<lparr>paragraphs := [ustr ''Slide Title'']\<rparr> # rest"
  by (simp_all add: set_title_def placeholder_at_def title_ph_def write_title_def
      set_text_def text_eval)

lemma titled_title_ph:
  "titled (title_ph # rest) = title_ph\<lparr>paragraphs := [ustr ''T'']\<rparr> # rest"
  by (simp add: titled_def set_title_title_ph)

lemma strip_T: "strip (ustr ''T'') = ustr ''T''"
  by (simp add: strip_def ustr_def is_space_def)





lemma create_content_slide_eq:
  "create_content_slide g sd =
     (case fst (get_smart_layout g sd) of
        Inl e \<Rightarrow> (Inl e, g)
      | Inr l \<Rightarrow>
          (case new_shapes l of
             None \<Rightarrow> (Inl AddSlideError, g)
           | Some shs0 \<Rightarrow>
               (let s' = add_notes sd
                      \<lparr>slide_layout = l,
                       shapes = fst (add_content sd
                          (fst (set_title shs0 (get_default (sd_title sd) (ustr ''Slide Title''))))),
                       notes_text = None\<rparr>
                in (Inr s',
                    g\<lparr>presentation :=
                        (presentation g)\<lparr>slides := slides (presentation g) @ [s']\<rparr>\<rparr>))))"
proof -
  have "get_smart_layout g sd = (fst (get_smart_layout g sd), g)"
    using get_smart_layout_generator [of g sd] by (metis prod.collapse)
  then show ?thesis
    unfolding create_content_slide_def
    by (auto simp add: add_slide_def Let_def split: sum.splits option.splits prod.splits)
qed

lemma one_layout_content_layouts:
  "content_layouts one_layout_generator
     = [(0, named_layout ''Title and Content'' [title_ph, body_ph])]"
  by (simp add: one_layout_generator_def identify_content_layouts_eq new_generator_def
      is_content_layout_def Let_def enumerate_simps named_layout_def name_title_and_content)

lemma one_layout_smart:
  "get_smart_layout one_layout_generator sd
     = (Inr (named_layout ''Title and Content'' [title_ph, body_ph]), one_layout_generator)"
  by (simp add: get_smart_layout_def suitable_layouts_def one_layout_content_layouts
      sort_reverse_def Let_def)

lemma clear_slides_Nil: "clear_slides ss = []"
  by (induction ss) simp_all

lemma has_content_placeholders_fst:
  "fst (has_content_placeholders prs l) = fst (has_content_placeholders prs' l)"
  by (simp add: has_content_placeholders_def add_slide_def Let_def split: option.splits)

lemma is_content_layout_any_slides: "is_content_layout prs l = is_content_layout prs' l"
  using has_content_placeholders_fst [of prs l prs'] by (simp add: is_content_layout_def)

lemma content_layouts_any_slides:
  "content_layouts (identify_content_layouts (new_generator (prs\<lparr>slides := ss\<rparr>)))
     = content_layouts (identify_content_layouts (new_generator prs))"
proof -
  have f: "filter (\<lambda>(i, l). is_content_layout (prs\<lparr>slides := ss\<rparr>) l) xs
      = filter (\<lambda>(i, l). is_content_layout prs l) xs" for xs :: "(nat \<times> layout) list"
    by (simp add: is_content_layout_any_slides [of "prs\<lparr>slides := ss\<rparr>" _ prs])
  show ?thesis by (simp add: identify_content_layouts_eq new_generator_def f)
qed

lemma open_presentation_Template:
  "open_presentation default_prs (Template prs) =
     Some \<lparr>presentation = prs\<lparr>slides := []\<rparr>,
           content_layouts = content_layouts (identify_content_layouts (new_generator prs)),
           current_layout_index = 0\<rparr>"
  by (simp add: open_presentation_def identify_content_layouts_eq new_generator_def
      clear_slides_Nil Let_def)

lemma open_presentation_any_slides:
  "open_presentation default_prs (Template (prs\<lparr>slides := ss\<rparr>))
     = open_presentation default_prs (Template prs)"
  by (simp add: open_presentation_Template content_layouts_any_slides)

lemma default_layouts_subset: "snd ` set (default_layouts ls) \<subseteq> set ls"
  by (auto simp add: default_layouts_def)

lemma content_layouts_identify_subset:
  "snd ` set (content_layouts (identify_content_layouts g))
     \<subseteq> set (slide_layouts (presentation g))"
proof -
  have "snd ` set (filter (\<lambda>(i, l). is_content_layout (presentation g) l)
           (enumerate 0 (slide_layouts (presentation g))))
        \<subseteq> set (slide_layouts (presentation g))"
    by (auto simp add: in_set_enumerate_eq)
  with default_layouts_subset [of "slide_layouts (presentation g)"] show ?thesis
    by (simp add: identify_content_layouts_eq)
qed

lemma slide_layout_add_notes: "slide_layout (add_notes sd s) = slide_layout s"
  by (simp add: add_notes_def Let_def)

lemma create_content_slide_Inl: "create_content_slide g sd = (Inl e, g') \<Longrightarrow> g' = g"
  by (auto simp add: create_content_slide_eq Let_def split: sum.splits option.splits)

lemma create_content_slide_Inr:
  "create_content_slide g sd = (Inr s, g') \<Longrightarrow>
   fst (get_smart_layout g sd) = Inr (slide_layout s)
   \<and> g' = g\<lparr>presentation := (presentation g)\<lparr>slides := slides (presentation g) @ [s]\<rparr>\<rparr>"
  by (auto simp add: create_content_slide_eq Let_def slide_layout_add_notes
      split: sum.splits option.splits)

lemma create_content_slide_succeeds:
  "fst (get_smart_layout g sd) = Inr l \<Longrightarrow> new_shapes l \<noteq> None \<Longrightarrow>
   \<exists>s. fst (create_content_slide g sd) = Inr s"
  by (auto simp add: create_content_slide_eq Let_def)

lemma get_smart_layout_succeeds:
  assumes "slide_layouts (presentation g) \<noteq> []"
  shows "\<exists>l. fst (get_smart_layout g sd) = Inr l"
proof (cases "content_layouts g = []")
  case True
  with assms show ?thesis
    by (simp add: get_smart_layout_def get_next_content_layout_def Let_def split: list.splits)
next
  case False
  then show ?thesis by (simp add: get_smart_layout_nonempty)
qed

lemma get_smart_layout_in_layouts:
  assumes "fst (get_smart_layout g sd) = Inr l"
    and "snd ` set (content_layouts g) \<subseteq> set (slide_layouts (presentation g))"
  shows "l \<in> set (slide_layouts (presentation g))"
proof -
  from assms(1) have "get_smart_layout g sd = (Inr l, snd (get_smart_layout g sd))"
    by (metis prod.collapse)
  from get_smart_layout_member [OF this assms(2)] show ?thesis .
qed

lemma create_content_slides_result:
  assumes "create_content_slides g sds = (ok, g')"
    and "snd ` set (content_layouts g) \<subseteq> set (slide_layouts (presentation g))"
  shows "slide_layouts (presentation g') = slide_layouts (presentation g)
    \<and> content_layouts g' = content_layouts g
    \<and> (\<exists>new. slides (presentation g') = slides (presentation g) @ new
          \<and> (ok \<longrightarrow> length new = length sds)
          \<and> (\<forall>s\<in>set new. slide_layout s \<in> set (slide_layouts (presentation g))))"
  using assms
proof (induction sds arbitrary: g)
  case Nil
  then show ?case by simp
next
  case (Cons sd sds)
  show ?case
  proof (cases "create_content_slide g sd")
    case (Pair r g1)
    show ?thesis
    proof (cases r)
      case (Inl e)
      with Pair Cons.prems(1) create_content_slide_Inl [of g sd e g1] show ?thesis by simp
    next
      case (Inr s)
      with Pair have step: "create_content_slide g sd = (Inr s, g1)" by simp
      note st = create_content_slide_Inr [OF step]
      from st have g1: "g1 = g\<lparr>presentation :=
          (presentation g)\<lparr>slides := slides (presentation g) @ [s]\<rparr>\<rparr>" by simp
      from st have "fst (get_smart_layout g sd) = Inr (slide_layout s)" by simp
      from get_smart_layout_in_layouts [OF this Cons.prems(2)]
      have sl: "slide_layout s \<in> set (slide_layouts (presentation g))" .
      from step Cons.prems(1) have rest: "create_content_slides g1 sds = (ok, g')" by simp
      from g1 Cons.prems(2)
      have inv: "snd ` set (content_layouts g1) \<subseteq> set (slide_layouts (presentation g1))"
        by simp
      from Cons.IH [OF rest inv] obtain new where new:
        "slide_layouts (presentation g') = slide_layouts (presentation g1)"
        "content_layouts g' = content_layouts g1"
        "slides (presentation g') = slides (presentation g1) @ new"
        "ok \<longrightarrow> length new = length sds"
        "\<forall>s\<in>set new. slide_layout s \<in> set (slide_layouts (presentation g1))"
        by blast
      have "slides (presentation g') = slides (presentation g) @ (s # new)"
        using new(3) g1 by simp
      moreover have "ok \<longrightarrow> length (s # new) = length (sd # sds)" using new(4) by simp
      moreover have "\<forall>t\<in>set (s # new). slide_layout t \<in> set (slide_layouts (presentation g))"
        using new(5) sl g1 by simp
      ultimately show ?thesis using new(1,2) g1 by (intro conjI exI [of _ "s # new"]) simp_all
    qed
  qed
qed

lemma create_content_slides_succeeds:
  assumes "slide_layouts (presentation g) \<noteq> []"
    and "\<forall>l\<in>set (slide_layouts (presentation g)). new_shapes l \<noteq> None"
    and "snd ` set (content_layouts g) \<subseteq> set (slide_layouts (presentation g))"
  shows "fst (create_content_slides g sds)"
  using assms
proof (induction sds arbitrary: g)
  case Nil
  then show ?case by simp
next
  case (Cons sd sds)
  from get_smart_layout_succeeds [OF Cons.prems(1)] obtain l
    where l: "fst (get_smart_layout g sd) = Inr l" by blast
  from get_smart_layout_in_layouts [OF l Cons.prems(3)] Cons.prems(2)
  have "new_shapes l \<noteq> None" by blast
  from create_content_slide_succeeds [OF l this] obtain s
    where "fst (create_content_slide g sd) = Inr s" by blast
  then obtain g1 where step: "create_content_slide g sd = (Inr s, g1)"
    by (cases "create_content_slide g sd") simp
  from create_content_slide_Inr [OF step] have g1: "g1 = g\<lparr>presentation :=
      (presentation g)\<lparr>slides := slides (presentation g) @ [s]\<rparr>\<rparr>" by simp
  have "fst (create_content_slides g1 sds)"
    using Cons.prems by (intro Cons.IH) (simp_all add: g1)
  with step show ?case by simp
qed

lemma open_presentation_invariant:
  assumes "open_presentation default_prs src = Some g0"
  shows "snd ` set (content_layouts g0) \<subseteq> set (slide_layouts (presentation g0))"
proof (cases src)
  case NoTemplate
  with assms show ?thesis by (auto simp add: open_presentation_def new_generator_def)
next
  case Unreadable
  with assms show ?thesis by (simp add: open_presentation_def)
next
  case (Template prs)
  with assms have "content_layouts g0 = content_layouts (identify_content_layouts (new_generator prs))"
    and "slide_layouts (presentation g0) = slide_layouts (presentation (new_generator prs))"
    by (auto simp add: open_presentation_Template new_generator_def)
  with content_layouts_identify_subset [of "new_generator prs"] show ?thesis by simp
qed

lemma open_presentation_layouts:
  assumes "open_presentation default_prs src = Some g0"
  shows "slide_layouts (presentation g0) =
     (case src of Template prs \<Rightarrow> slide_layouts prs | _ \<Rightarrow> slide_layouts default_prs)
   \<and> slides (presentation g0) =
     (case src of Template prs \<Rightarrow> [] | _ \<Rightarrow> slides default_prs)"
proof (cases src)
  case NoTemplate
  with assms show ?thesis by (auto simp add: open_presentation_def new_generator_def)
next
  case Unreadable
  with assms show ?thesis by (simp add: open_presentation_def)
next
  case (Template prs)
  with assms show ?thesis by (auto simp add: open_presentation_Template)
qed

lemma create_presentation_eq:
  assumes "open_presentation default_prs src = Some g0"
    and "slide_layouts (presentation g0) = l0 # rest"
    and "new_shapes l0 = Some shs0"
  shows "create_presentation today default_prs src od =
     (case create_content_slides
             (g0\<lparr>presentation := (presentation g0)\<lparr>slides := slides (presentation g0)
                @ [\<lparr>slide_layout = l0, shapes = fill_title_slide today od shs0,
                     notes_text = None\<rparr>]\<rparr>\<rparr>) (o_slides od) of
        (ok, g2) \<Rightarrow> (ok, Some g2))"
  using assms by (simp add: create_presentation_def add_slide_def Let_def)

lemma create_presentation_Some:
  assumes "create_presentation today default_prs src od = (True, Some g')"
  shows "\<exists>g0 l0 rest shs0. open_presentation default_prs src = Some g0
     \<and> slide_layouts (presentation g0) = l0 # rest \<and> new_shapes l0 = Some shs0"
  using assms
  by (auto simp add: create_presentation_def add_slide_def Let_def
      split: option.splits list.splits)

lemma create_presentation_result:
  assumes "create_presentation today default_prs src od = (ok, Some g')"
    and "open_presentation default_prs src = Some g0"
    and "slide_layouts (presentation g0) = l0 # rest"
    and "new_shapes l0 = Some shs0"
  shows "slide_layouts (presentation g') = l0 # rest
    \<and> (\<exists>new. slides (presentation g') = slides (presentation g0)
            @ \<lparr>slide_layout = l0, shapes = fill_title_slide today od shs0, notes_text = None\<rparr>
            # new
          \<and> (ok \<longrightarrow> length new = length (o_slides od))
          \<and> (\<forall>s\<in>set new. slide_layout s \<in> set (l0 # rest)))"
proof -
  let ?t = "\<lparr>slide_layout = l0, shapes = fill_title_slide today od shs0, notes_text = None\<rparr>"
  let ?g1 = "g0\<lparr>presentation := (presentation g0)\<lparr>slides := slides (presentation g0) @ [?t]\<rparr>\<rparr>"
  from assms(1) create_presentation_eq [OF assms(2,3,4), of today od]
  have loop: "create_content_slides ?g1 (o_slides od) = (ok, g')"
    by (simp split: prod.splits)
  have inv: "snd ` set (content_layouts ?g1) \<subseteq> set (slide_layouts (presentation ?g1))"
    using open_presentation_invariant [OF assms(2)] by simp
  from create_content_slides_result [OF loop inv] assms(3) show ?thesis by auto
qed

lemma create_presentation_succeeds:
  assumes "open_presentation default_prs src = Some g0"
    and "slide_layouts (presentation g0) \<noteq> []"
    and "\<forall>l\<in>set (slide_layouts (presentation g0)). new_shapes l \<noteq> None"
  shows "fst (create_presentation today default_prs src od)"
proof -
  from assms(2) obtain l0 rest where ls: "slide_layouts (presentation g0) = l0 # rest"
    by (cases "slide_layouts (presentation g0)") auto
  with assms(3) obtain shs0 where sh: "new_shapes l0 = Some shs0" by auto
  let ?t = "\<lparr>slide_layout = l0, shapes = fill_title_slide today od shs0, notes_text = None\<rparr>"
  let ?g1 = "g0\<lparr>presentation := (presentation g0)\<lparr>slides := slides (presentation g0) @ [?t]\<rparr>\<rparr>"
  have "fst (create_content_slides ?g1 (o_slides od))"
    using assms(2,3) open_presentation_invariant [OF assms(1)]
    by (intro create_content_slides_succeeds) simp_all
  then show ?thesis
    by (cases "create_content_slides ?g1 (o_slides od)")
      (simp add: create_presentation_eq [OF assms(1) ls sh])
qed

lemma create_presentation_any_slides:
  "create_presentation today default_prs (Template (prs\<lparr>slides := ss\<rparr>)) od
     = create_presentation today default_prs (Template prs) od"
  by (simp add: create_presentation_def open_presentation_any_slides)

lemma default_layouts_eq:
  "default_layouts ls = map (\<lambda>i. (i, ls ! i)) [1..<min 3 (length ls)]"
proof -
  have "filter (\<lambda>i. 0 < i) [0..<n] = [1..<n]" for n :: nat
  proof (cases n)
    case 0
    then show ?thesis by simp
  next
    case (Suc m)
    have "filter (\<lambda>i. 0 < i) [Suc 0..<Suc m] = [Suc 0..<Suc m]"
      by (rule filter_True) auto
    then show ?thesis by (simp add: Suc upt_rec [of 0])
  qed
  then show ?thesis by (simp add: default_layouts_def min.commute)
qed

lemma create_presentation_True:
  assumes "fst (create_presentation today default_prs src od)"
  shows "\<exists>g'. create_presentation today default_prs src od = (True, Some g')"
proof -
  obtain ok r where r: "create_presentation today default_prs src od = (ok, r)"
    by (cases "create_presentation today default_prs src od")
  with assms have ok by simp
  moreover from r \<open>ok\<close> have "r \<noteq> None"
    by (auto simp add: create_presentation_def Let_def
        split: option.splits list.splits sum.splits prod.splits)
  ultimately show ?thesis using r by auto
qed

lemma create_presentation_layouts:
  assumes "create_presentation today default_prs src od = (ok, Some g')"
  shows "slide_layouts (presentation g') = source_layouts default_prs src"
proof -
  from assms obtain g0 where g0: "open_presentation default_prs src = Some g0"
    by (auto simp add: create_presentation_def split: option.splits)
  from open_presentation_layouts [OF g0]
  have ls: "slide_layouts (presentation g0) = source_layouts default_prs src"
    by (simp add: source_layouts_def)
  show ?thesis
  proof (cases "slide_layouts (presentation g0)")
    case Nil
    with assms g0 have "g' = g0" by (simp add: create_presentation_def)
    with ls show ?thesis by simp
  next
    case (Cons l0 rest)
    show ?thesis
    proof (cases "new_shapes l0")
      case None
      with assms g0 Cons have "g' = g0"
        by (simp add: create_presentation_def add_slide_def)
      with ls show ?thesis by simp
    next
      case (Some shs0)
      from create_presentation_result [OF assms g0 Cons Some] Cons ls show ?thesis by simp
    qed
  qed
qed

lemma create_presentation_slides:
  assumes "create_presentation today default_prs src od = (True, Some g')"
  shows "\<exists>t new. slides (presentation g') =
       (case src of Template prs \<Rightarrow> [] | _ \<Rightarrow> slides default_prs) @ t # new
     \<and> source_layouts default_prs src \<noteq> []
     \<and> slide_layout t = source_layouts default_prs src ! 0
     \<and> length new = length (o_slides od)
     \<and> (\<forall>s\<in>set new. slide_layout s \<in> set (source_layouts default_prs src))"
proof -
  from create_presentation_Some [OF assms] obtain g0 l0 rest shs0
    where g0: "open_presentation default_prs src = Some g0"
      and ls: "slide_layouts (presentation g0) = l0 # rest"
      and sh: "new_shapes l0 = Some shs0" by blast
  from open_presentation_layouts [OF g0]
  have src: "slide_layouts (presentation g0) = source_layouts default_prs src"
    "slides (presentation g0) = (case src of Template prs \<Rightarrow> [] | _ \<Rightarrow> slides default_prs)"
    by (simp_all add: source_layouts_def)
  from create_presentation_result [OF assms g0 ls sh] obtain new where new:
    "slides (presentation g') = slides (presentation g0)
       @ \<lparr>slide_layout = l0, shapes = fill_title_slide today od shs0, notes_text = None\<rparr> # new"
    "length new = length (o_slides od)"
    "\<forall>s\<in>set new. slide_layout s \<in> set (l0 # rest)"
    by auto
  let ?t = "\<lparr>slide_layout = l0, shapes = fill_title_slide today od shs0, notes_text = None\<rparr>"
  from src(1) ls have sl: "source_layouts default_prs src = l0 # rest" by (rule trans [OF sym])
  have "slides (presentation g') =
      (case src of Template prs \<Rightarrow> [] | _ \<Rightarrow> slides default_prs) @ ?t # new"
    using new(1) src(2) by simp
  moreover have "source_layouts default_prs src \<noteq> []" by (simp add: sl)
  moreover have "slide_layout ?t = source_layouts default_prs src ! 0" by (simp add: sl)
  moreover have "\<forall>s\<in>set new. slide_layout s \<in> set (source_layouts default_prs src)"
    using new(3) by (simp add: sl)
  ultimately show ?thesis using new(2) by blast
qed

lemma first_slide_layout:
  assumes "fst (create_presentation today default_prs src od)"
    and "slides default_prs = []"
  shows "result_slides (create_presentation today default_prs src od) \<noteq> []
    \<and> source_layouts default_prs src \<noteq> []
    \<and> result_layouts (create_presentation today default_prs src od)
        = source_layouts default_prs src
    \<and> slide_layout (result_slides (create_presentation today default_prs src od) ! 0)
        = source_layouts default_prs src ! 0"
proof -
  from create_presentation_True [OF assms(1)] obtain g'
    where r: "create_presentation today default_prs src od = (True, Some g')" by blast
  from create_presentation_slides [OF r] assms(2) obtain t new where
    "slides (presentation g') = t # new" "source_layouts default_prs src \<noteq> []"
    "slide_layout t = source_layouts default_prs src ! 0"
    by (auto split: template_source.splits)
  with create_presentation_layouts [OF r] show ?thesis
    by (simp add: r result_slides_def result_layouts_def)
qed

lemma template_succeeds:
  assumes "slide_layouts prs \<noteq> []"
    and "\<forall>l\<in>set (slide_layouts prs). new_shapes l \<noteq> None"
  shows "fst (create_presentation today default_prs (Template prs) od)"
  using assms
  by (intro create_presentation_succeeds [OF open_presentation_Template]) simp_all

lemma blank_first_succeeds:
  "fst (create_presentation a_date default_presentation (Template blank_first_template)
     report_outline)"
  by (rule template_succeeds) (simp_all add: blank_first_template_def named_layout_def)

lemma template_result:
  assumes "create_presentation today default_prs (Template prs) od = (ok, Some g')"
  shows "slide_layouts (presentation g') = slide_layouts prs
    \<and> (ok \<longrightarrow> length (slides (presentation g')) = 1 + length (o_slides od))
    \<and> (\<forall>s\<in>set (slides (presentation g')). slide_layout s \<in> set (slide_layouts prs))"
proof -
  have ls: "slide_layouts (presentation g') = slide_layouts prs"
    using create_presentation_layouts [OF assms] by (simp add: source_layouts_def)
  note g0 = open_presentation_Template [of default_prs prs]
  show ?thesis
  proof (cases "slide_layouts prs")
    case Nil
    with assms have "g' = \<lparr>presentation = prs\<lparr>slides := []\<rparr>,
        content_layouts = content_layouts (identify_content_layouts (new_generator prs)),
        current_layout_index = 0\<rparr>" "\<not> ok"
      by (simp_all add: create_presentation_def g0)
    with ls show ?thesis by simp
  next
    case (Cons l0 rest)
    show ?thesis
    proof (cases "new_shapes l0")
      case None
      with assms Cons have "g' = \<lparr>presentation = prs\<lparr>slides := []\<rparr>,
          content_layouts = content_layouts (identify_content_layouts (new_generator prs)),
          current_layout_index = 0\<rparr>" "\<not> ok"
        by (simp_all add: create_presentation_def g0 add_slide_def)
      with ls show ?thesis by simp
    next
      case (Some shs0)
      have l: "slide_layouts (presentation \<lparr>presentation = prs\<lparr>slides := []\<rparr>,
          content_layouts = content_layouts (identify_content_layouts (new_generator prs)),
          current_layout_index = 0\<rparr>) = l0 # rest" using Cons by simp
      from create_presentation_result [OF assms g0 l Some] ls Cons show ?thesis by auto
    qed
  qed
qed

lemma identify_content_layouts_default:
  assumes "fst (classify_layouts (presentation g) (enumerate 0 (slide_layouts (presentation g))) [])
      = []"
  shows "content_layouts (identify_content_layouts g) =
     map (\<lambda>i. (i, slide_layouts (presentation g) ! i))
       [1..<min 3 (length (slide_layouts (presentation g)))]"
  using assms
  by (simp add: identify_content_layouts_eq classify_layouts_found default_layouts_eq)

lemma single_layout_slides:
  assumes "slide_layouts prs = [l]"
    and "create_presentation today default_prs (Template prs) od = (ok, Some g')"
  shows "(\<forall>s\<in>set (slides (presentation g')). slide_layout s = l)
     \<and> (ok \<longrightarrow> length (slides (presentation g')) = 1 + length (o_slides od))"
  using template_result [OF assms(2)] assms(1) by simp

lemma shapes_add_notes: "shapes (add_notes sd s) = shapes s"
  by (simp add: add_notes_def Let_def)

lemma abc_points_nonempty: "sd_points abc_slide \<noteq> []" "sd_points untitled_abc_slide \<noteq> []"
  by (simp_all add: abc_slide_def untitled_abc_slide_def abc_points_def)

lemma title_only_content_layouts: "content_layouts title_only_generator = []"
  by (simp add: title_only_generator_def identify_content_layouts_eq new_generator_def
      is_content_layout_def Let_def enumerate_simps named_layout_def default_layouts_def
      keyword_eval)

lemma title_only_smart:
  "get_smart_layout title_only_generator sd
     = (Inr (named_layout ''Title Only'' [title_ph]), title_only_generator)"
proof -
  have "slide_layouts (presentation title_only_generator) = [named_layout ''Title Only'' [title_ph]]"
    by (simp add: title_only_generator_def identify_content_layouts_presentation
        new_generator_def)
  then show ?thesis
    by (simp add: get_smart_layout_def get_next_content_layout_def title_only_content_layouts)
qed

lemma find_none_title_only:
  "find_content_placeholder [title_ph\<lparr>paragraphs := ps\<rparr>] = None"
  by (simp add: find_content_placeholder_def strategy1_def strategy2_def strategy3_def
      strategy4_def title_ph_def)

lemma no_region_titled:
  "first_index (\<lambda>s. has_text_frame s
       \<and> strip (tf_text s) \<noteq> strip (get_default (sd_title abc_slide) []))
     [title_ph\<lparr>paragraphs := [ustr ''T'']\<rparr>] = None"
  by (simp add: abc_slide_def get_default_def title_ph_def tf_text_def strip_T)



lemma add_content_title_only:
  "add_content abc_slide [title_ph\<lparr>paragraphs := [ustr ''T'']\<rparr>]
     = ([title_ph\<lparr>paragraphs := [ustr ''T'']\<rparr>], False)"
  by (rule add_content_no_region [OF abc_points_nonempty(1) find_none_title_only no_region_titled])


lemma create_title_only_titled:
  "fst (create_content_slide title_only_generator abc_slide) =
     Inr \<lparr>slide_layout = named_layout ''Title Only'' [title_ph],
          shapes = [title_ph\<lparr>paragraphs := [ustr ''T'']\<rparr>], notes_text = None\<rparr>"
proof -
  have t: "get_default (sd_title abc_slide) (ustr ''Slide Title'') = ustr ''T''"
    "get_default (sd_notes abc_slide) [] = []"
    by (simp_all add: abc_slide_def get_default_def)
  show ?thesis
    unfolding create_content_slide_eq title_only_smart
    by (simp add: named_layout_def Let_def add_notes_def t set_title_title_ph
        add_content_title_only)
qed



section \<open>The claims\<close>

text \<open>
  C8: the temporary slide that the probe of a layout instantiates is removed before the
  probe returns, and the slide sequence of the document after classification is the
  slide sequence before it.
\<close>

theorem probe_leaves_slides:
  "slides (snd (has_content_placeholders prs l)) = slides prs
   \<and> slides (presentation (identify_content_layouts g)) = slides (presentation g)"
  by (simp add: has_content_placeholders_presentation identify_content_layouts_presentation)

theorem probe_leaves_slides_witness:
  "slides (snd (has_content_placeholders
      \<lparr>slide_layouts = [named_layout ''Custom Layout'' [title_ph, body_ph]], slides = [old_slide]\<rparr>
      (named_layout ''Custom Layout'' [title_ph, body_ph])))
    = slides \<lparr>slide_layouts = [named_layout ''Custom Layout'' [title_ph, body_ph]],
              slides = [old_slide]\<rparr>
   \<and> slides (presentation (identify_content_layouts (new_generator
        \<lparr>slide_layouts = [named_layout ''Custom Layout'' [title_ph, body_ph]],
         slides = [old_slide]\<rparr>)))
    = slides (presentation (new_generator
        \<lparr>slide_layouts = [named_layout ''Custom Layout'' [title_ph, body_ph]],
         slides = [old_slide]\<rparr>))"
  by (rule probe_leaves_slides)



text \<open>
  C7: with the layouts "Title Slide", "Title and Content" and "Comparison", whatever their
  shapes, and a slide titled "X vs Y" with two points, the content layouts are the second
  and the third layout (the title slide layout is no candidate), their priorities are 1
  and 4, and the selection returns "Comparison".
\<close>

theorem comparison_layout_selected:
  fixes a b c :: "shape list option" and ss :: "slide list" and p q :: pystr
    and n :: "pystr option"
  defines "title_slide \<equiv> \<lparr>lname = ustr ''Title Slide'', new_shapes = a\<rparr>"
    and "title_and_content \<equiv> \<lparr>lname = ustr ''Title and Content'', new_shapes = b\<rparr>"
    and "comparison \<equiv> \<lparr>lname = ustr ''Comparison'', new_shapes = c\<rparr>"
  defines "g \<equiv> identify_content_layouts (new_generator
             \<lparr>slide_layouts = [title_slide, title_and_content, comparison], slides = ss\<rparr>)"
    and "sd \<equiv> \<lparr>sd_title = Some (ustr ''X vs Y''), sd_points = [p, q], sd_notes = n\<rparr>"
  shows "content_layouts g = [(1, title_and_content), (2, comparison)]
    \<and> suitable_layouts g sd = [(1, title_and_content, 1), (2, comparison, 4)]
    \<and> get_smart_layout g sd = (Inr comparison, g)"
proof -
  have cl: "content_layouts g = [(1, title_and_content), (2, comparison)]"
    unfolding g_def title_slide_def title_and_content_def comparison_def
    by (simp add: identify_content_layouts_eq new_generator_def is_content_layout_def Let_def
        enumerate_simps name_title_slide name_title_and_content name_comparison)
  have su: "suitable_layouts g sd = [(1, title_and_content, 1), (2, comparison, 4)]"
    unfolding suitable_layouts_def cl
    by (simp add: sd_def title_and_content_def comparison_def get_default_def Let_def
        priority_vs_comparison priority_vs_title_and_content)
  have "get_smart_layout g sd = (Inr comparison, g)"
    unfolding get_smart_layout_def su
    by (simp add: cl sort_reverse_def)
  with cl su show ?thesis by simp
qed

theorem comparison_layout_selected_witness:
  "content_layouts (identify_content_layouts (new_generator
      \<lparr>slide_layouts = [\<lparr>lname = ustr ''Title Slide'', new_shapes = Some [title_ph, body_ph]\<rparr>,
          \<lparr>lname = ustr ''Title and Content'', new_shapes = Some [title_ph, body_ph]\<rparr>,
          \<lparr>lname = ustr ''Comparison'', new_shapes = Some [title_ph, body_ph, body_ph]\<rparr>],
        slides = [old_slide]\<rparr>))
     = [(1, \<lparr>lname = ustr ''Title and Content'', new_shapes = Some [title_ph, body_ph]\<rparr>),
        (2, \<lparr>lname = ustr ''Comparison'', new_shapes = Some [title_ph, body_ph, body_ph]\<rparr>)]
   \<and> suitable_layouts (identify_content_layouts (new_generator
      \<lparr>slide_layouts = [\<lparr>lname = ustr ''Title Slide'', new_shapes = Some [title_ph, body_ph]\<rparr>,
          \<lparr>lname = ustr ''Title and Content'', new_shapes = Some [title_ph, body_ph]\<rparr>,
          \<lparr>lname = ustr ''Comparison'', new_shapes = Some [title_ph, body_ph, body_ph]\<rparr>],
        slides = [old_slide]\<rparr>))
        \<lparr>sd_title = Some (ustr ''X vs Y''), sd_points = [ustr ''a'', ustr ''b''], sd_notes = None\<rparr>
     = [(1, \<lparr>lname = ustr ''Title and Content'', new_shapes = Some [title_ph, body_ph]\<rparr>, 1),
        (2, \<lparr>lname = ustr ''Comparison'', new_shapes = Some [title_ph, body_ph, body_ph]\<rparr>, 4)]
   \<and> get_smart_layout (identify_content_layouts (new_generator
      \<lparr>slide_layouts = [\<lparr>lname = ustr ''Title Slide'', new_shapes = Some [title_ph, body_ph]\<rparr>,
          \<lparr>lname = ustr ''Title and Content'', new_shapes = Some [title_ph, body_ph]\<rparr>,
          \<lparr>lname = ustr ''Comparison'', new_shapes = Some [title_ph, body_ph, body_ph]\<rparr>],
        slides = [old_slide]\<rparr>))
        \<lparr>sd_title = Some (ustr ''X vs Y''), sd_points = [ustr ''a'', ustr ''b''], sd_notes = None\<rparr>
     = (Inr \<lparr>lname = ustr ''Comparison'', new_shapes = Some [title_ph, body_ph, body_ph]\<rparr>,
        identify_content_layouts (new_generator
      \<lparr>slide_layouts = [\<lparr>lname = ustr ''Title Slide'', new_shapes = Some [title_ph, body_ph]\<rparr>,
          \<lparr>lname = ustr ''Title and Content'', new_shapes = Some [title_ph, body_ph]\<rparr>,
          \<lparr>lname = ustr ''Comparison'', new_shapes = Some [title_ph, body_ph, body_ph]\<rparr>],
        slides = [old_slide]\<rparr>))"
  by (rule comparison_layout_selected)

text \<open>
  C2, as stated, fails: with the content layouts "Title and Content", "Comparison" and
  "Picture Comparison" and a slide titled "X vs Y", two layouts share the highest
  priority 4; the selection returns the first of them and leaves the rotation index at 0,
  where rotation would return "Title and Content" and move the index to 1.
\<close>

theorem tie_is_not_rotated:
  "content_layouts (identify_content_layouts (new_generator tie_presentation)) \<noteq> []
   \<and> suitable_layouts (identify_content_layouts (new_generator tie_presentation)) vs_slide =
       [(0, named_layout ''Title and Content'' [title_ph, body_ph], 1),
        (1, named_layout ''Comparison'' [title_ph, body_ph], 4),
        (2, named_layout ''Picture Comparison'' [title_ph, body_ph], 4)]
   \<and> get_smart_layout (identify_content_layouts (new_generator tie_presentation)) vs_slide =
       (Inr (named_layout ''Comparison'' [title_ph, body_ph]),
        identify_content_layouts (new_generator tie_presentation))
   \<and> get_next_content_layout (identify_content_layouts (new_generator tie_presentation)) =
       (Inr (named_layout ''Title and Content'' [title_ph, body_ph]),
        (identify_content_layouts (new_generator tie_presentation))\<lparr>current_layout_index := 1\<rparr>)
   \<and> get_smart_layout (identify_content_layouts (new_generator tie_presentation)) vs_slide \<noteq>
       get_next_content_layout (identify_content_layouts (new_generator tie_presentation))"
proof -
  let ?g = "identify_content_layouts (new_generator tie_presentation)"
  have ne: "content_layouts ?g \<noteq> []" by (simp add: tie_content_layouts)
  have smart: "get_smart_layout ?g vs_slide =
      (Inr (named_layout ''Comparison'' [title_ph, body_ph]), ?g)"
    unfolding get_smart_layout_def tie_suitable_layouts
    by (simp add: tie_content_layouts sort_reverse_def)
  have nxt: "get_next_content_layout ?g =
      (Inr (named_layout ''Title and Content'' [title_ph, body_ph]),
       ?g\<lparr>current_layout_index := 1\<rparr>)"
    by (simp add: get_next_content_layout_def tie_content_layouts tie_index)
  have "named_layout ''Comparison'' [title_ph, body_ph]
      \<noteq> named_layout ''Title and Content'' [title_ph, body_ph]"
    by (simp add: named_layout_def ustr_def)
  with smart nxt have "get_smart_layout ?g vs_slide \<noteq> get_next_content_layout ?g" by simp
  with ne tie_suitable_layouts smart nxt show ?thesis by (intro conjI)
qed

text \<open>
  C2, amended: with content layouts present, when the layout at position \<open>i\<close> is the
  first one that reaches the highest priority, and that priority is above the default 1,
  the selection returns it and leaves the generator, and so the rotation index, as it
  was.  (The case where no rule fires for any layout is left out of the statement.)
\<close>

theorem smart_layout_first_best:
  assumes "i < length (content_layouts g)"
    and "\<forall>j<length (content_layouts g).
           snd (snd (suitable_layouts g sd ! j)) \<le> snd (snd (suitable_layouts g sd ! i))"
    and "\<forall>j<i. snd (snd (suitable_layouts g sd ! j)) < snd (snd (suitable_layouts g sd ! i))"
    and "1 < snd (snd (suitable_layouts g sd ! i))"
  shows "get_smart_layout g sd = (Inr (snd (content_layouts g ! i)), g)"
  using assms(1-3) by (rule get_smart_layout_at_first_best)

theorem smart_layout_first_best_witness:
  "1 < length (content_layouts (identify_content_layouts (new_generator tie_presentation)))
   \<and> 1 < snd (snd (suitable_layouts (identify_content_layouts (new_generator tie_presentation))
                    vs_slide ! 1))
   \<and> snd (snd (suitable_layouts (identify_content_layouts (new_generator tie_presentation))
                    vs_slide ! 1))
      = snd (snd (suitable_layouts (identify_content_layouts (new_generator tie_presentation))
                    vs_slide ! 2))
   \<and> get_smart_layout (identify_content_layouts (new_generator tie_presentation)) vs_slide =
       (Inr (snd (content_layouts (identify_content_layouts (new_generator tie_presentation)) ! 1)),
        identify_content_layouts (new_generator tie_presentation))"
proof -
  let ?g = "identify_content_layouts (new_generator tie_presentation)"
  have h1: "1 < length (content_layouts ?g)" by (simp add: tie_content_layouts)
  have h2: "\<forall>j<length (content_layouts ?g).
      snd (snd (suitable_layouts ?g vs_slide ! j)) \<le> snd (snd (suitable_layouts ?g vs_slide ! 1))"
    by (simp add: tie_content_layouts tie_suitable_layouts less_Suc_eq numeral_3_eq_3)
  have h3: "\<forall>j<1. snd (snd (suitable_layouts ?g vs_slide ! j))
      < snd (snd (suitable_layouts ?g vs_slide ! 1))"
    by (simp add: tie_suitable_layouts)
  have h4: "1 < snd (snd (suitable_layouts ?g vs_slide ! 1))"
    by (simp add: tie_suitable_layouts)
  have h5: "snd (snd (suitable_layouts ?g vs_slide ! 1))
      = snd (snd (suitable_layouts ?g vs_slide ! 2))"
    by (simp add: tie_suitable_layouts)
  from h1 h4 h5 smart_layout_first_best [OF h1 h2 h3 h4] show ?thesis by (intro conjI)
qed

text \<open>
  C9: for a slide without points the body part changes no shape and reports no content,
  and the created slide is the chosen layout's shapes with the title written, plus the
  notes.
\<close>

theorem no_points_no_body:
  assumes "sd_points sd = []"
  shows "add_content sd shs = (shs, False)
    \<and> (\<forall>s g'. create_content_slide g sd = (Inr s, g') \<longrightarrow>
          (\<exists>l shs0. fst (get_smart_layout g sd) = Inr l \<and> new_shapes l = Some shs0
             \<and> s = add_notes sd
                   \<lparr>slide_layout = l,
                    shapes = fst (set_title shs0 (get_default (sd_title sd) (ustr ''Slide Title''))),
                    notes_text = None\<rparr>))"
  using assms
  by (auto simp add: add_content_no_points create_content_slide_eq Let_def
      split: sum.splits option.splits)

theorem no_points_no_body_witness:
  "sd_points empty_slide = []
   \<and> add_content empty_slide (titled [title_ph, body_ph]) = (titled [title_ph, body_ph], False)
   \<and> fst (create_content_slide one_layout_generator empty_slide) =
       Inr \<lparr>slide_layout = named_layout ''Title and Content'' [title_ph, body_ph],
            shapes = [title_ph\<lparr>paragraphs := [ustr ''T'']\<rparr>, body_ph],
            notes_text = Some (ustr ''say'')\<rparr>"
proof -
  have h: "sd_points empty_slide = []" by (simp add: empty_slide_def)
  note t = no_points_no_body [OF h, of "titled [title_ph, body_ph]" one_layout_generator]
  have titled': "fst (set_title [title_ph, body_ph] (ustr ''T''))
      = [title_ph\<lparr>paragraphs := [ustr ''T'']\<rparr>, body_ph]"
    using titled_title_ph [of "[body_ph]"] by (simp add: titled_def)
  have c: "fst (create_content_slide one_layout_generator empty_slide) =
       Inr \<lparr>slide_layout = named_layout ''Title and Content'' [title_ph, body_ph],
            shapes = [title_ph\<lparr>paragraphs := [ustr ''T'']\<rparr>, body_ph],
            notes_text = Some (ustr ''say'')\<rparr>"
    unfolding create_content_slide_eq one_layout_smart
    by (simp add: named_layout_def Let_def add_notes_def empty_slide_def get_default_def
        add_content_def titled') (simp add: text_eval)
  from h t [THEN conjunct1] c show ?thesis by (intro conjI)
qed

text \<open>
  C3, as stated, fails: a template whose layouts are "Blank" and "Title Slide" is assembled
  with its title slide on "Blank", the layout at index 0, although "Title Slide" is the
  layout that classification takes for a title layout and "Blank" is not one.
\<close>

theorem title_slide_not_first_title_layout:
  "fst (create_presentation a_date default_presentation (Template blank_first_template)
      report_outline)
   \<and> \<not> any_in pure_title_keywords (lower (lname (slide_layouts blank_first_template ! 0)))
   \<and> any_in pure_title_keywords (lower (lname (slide_layouts blank_first_template ! 1)))
   \<and> slide_layout (result_slides (create_presentation a_date default_presentation
        (Template blank_first_template) report_outline) ! 0)
        = slide_layouts blank_first_template ! 0
   \<and> slide_layouts blank_first_template ! 0 \<noteq> slide_layouts blank_first_template ! 1"
proof -
  have h: "slides default_presentation = []" by (simp add: default_presentation_def)
  have a: "\<not> any_in pure_title_keywords (lower (lname (slide_layouts blank_first_template ! 0)))"
    by (simp add: blank_first_template_def named_layout_def keyword_eval)
  have b: "any_in pure_title_keywords (lower (lname (slide_layouts blank_first_template ! 1)))"
    by (simp add: blank_first_template_def named_layout_def name_title_slide)
  from first_slide_layout [OF blank_first_succeeds h]
  have c: "slide_layout (result_slides (create_presentation a_date default_presentation
        (Template blank_first_template) report_outline) ! 0)
        = slide_layouts blank_first_template ! 0"
    by (simp add: source_layouts_def)
  have d: "slide_layouts blank_first_template ! 0 \<noteq> slide_layouts blank_first_template ! 1"
    by (simp add: blank_first_template_def named_layout_def ustr_def)
  from blank_first_succeeds a b c d show ?thesis by (intro conjI)
qed

text \<open>
  C3, amended: whenever \<open>create_presentation\<close> succeeds (from a template, or from the
  default presentation, which starts without slides), the first slide of the result, the
  title slide, is bound to the layout at index 0 of the layouts it works with, whatever
  the names of the layouts are; those layouts are the layouts of the result.
\<close>

theorem title_slide_uses_first_layout:
  assumes "fst (create_presentation today default_prs src od)"
    and "slides default_prs = []"
  shows "result_slides (create_presentation today default_prs src od) \<noteq> []
    \<and> source_layouts default_prs src \<noteq> []
    \<and> result_layouts (create_presentation today default_prs src od)
        = source_layouts default_prs src
    \<and> slide_layout (result_slides (create_presentation today default_prs src od) ! 0)
        = source_layouts default_prs src ! 0"
  using assms by (rule first_slide_layout)

theorem title_slide_uses_first_layout_witness:
  "fst (create_presentation a_date default_presentation (Template blank_first_template)
      report_outline)
   \<and> slides default_presentation = []
   \<and> result_slides (create_presentation a_date default_presentation
        (Template blank_first_template) report_outline) \<noteq> []
   \<and> source_layouts default_presentation (Template blank_first_template) \<noteq> []
   \<and> result_layouts (create_presentation a_date default_presentation
        (Template blank_first_template) report_outline)
        = source_layouts default_presentation (Template blank_first_template)
   \<and> slide_layout (result_slides (create_presentation a_date default_presentation
        (Template blank_first_template) report_outline) ! 0)
        = source_layouts default_presentation (Template blank_first_template) ! 0"
proof -
  have h: "slides default_presentation = []" by (simp add: default_presentation_def)
  from blank_first_succeeds h title_slide_uses_first_layout [OF blank_first_succeeds h]
  show ?thesis by blast
qed

text \<open>
  C6: assembling from a template gives the same result as assembling from that template
  without its slides (nothing of a slide the template came with is kept); the layouts of
  the result are the template's layouts, in the same order; when \<open>create_presentation\<close>
  returns \<open>True\<close> the result has one slide more than the outline has slide specs; and it
  returns \<open>True\<close> for every template that has a layout and whose layouts can all be
  instantiated.
\<close>

theorem template_slides_replaced:
  "create_presentation today default_prs (Template prs) od
     = create_presentation today default_prs (Template (prs\<lparr>slides := []\<rparr>)) od
   \<and> (\<forall>ok g'. create_presentation today default_prs (Template prs) od = (ok, Some g') \<longrightarrow>
          slide_layouts (presentation g') = slide_layouts prs
          \<and> (ok \<longrightarrow> length (slides (presentation g')) = 1 + length (o_slides od)))
   \<and> (slide_layouts prs \<noteq> [] \<and> (\<forall>l\<in>set (slide_layouts prs). new_shapes l \<noteq> None) \<longrightarrow>
          fst (create_presentation today default_prs (Template prs) od))"
  using create_presentation_any_slides [where today = today and default_prs = default_prs
      and prs = prs and ss = "[]" and od = od, symmetric]
    template_result [of today default_prs prs od] template_succeeds [of prs today default_prs od]
  by blast

theorem template_slides_replaced_witness:
  "length (slides blank_first_template) = 5
   \<and> slide_layouts blank_first_template \<noteq> []
   \<and> list_all (\<lambda>l. new_shapes l \<noteq> None) (slide_layouts blank_first_template)
   \<and> fst (create_presentation a_date default_presentation (Template blank_first_template)
        report_outline)
   \<and> result_layouts (create_presentation a_date default_presentation
        (Template blank_first_template) report_outline) = slide_layouts blank_first_template
   \<and> length (result_slides (create_presentation a_date default_presentation
        (Template blank_first_template) report_outline)) = 1 + length (o_slides report_outline)
   \<and> create_presentation a_date default_presentation (Template blank_first_template)
        report_outline
      = create_presentation a_date default_presentation
          (Template (blank_first_template\<lparr>slides := []\<rparr>)) report_outline"
proof -
  let ?r = "create_presentation a_date default_presentation (Template blank_first_template)
      report_outline"
  note t = template_slides_replaced [of a_date default_presentation blank_first_template
      report_outline]
  have h0: "length (slides blank_first_template) = 5" by (simp add: blank_first_template_def)
  have h1: "slide_layouts blank_first_template \<noteq> []" by (simp add: blank_first_template_def)
  have h2: "list_all (\<lambda>l. new_shapes l \<noteq> None) (slide_layouts blank_first_template)"
    by (simp add: blank_first_template_def named_layout_def)
  from h2 have h2': "\<forall>l\<in>set (slide_layouts blank_first_template). new_shapes l \<noteq> None"
    by (simp only: list_all_iff)
  from t h1 h2' have ok: "fst ?r" by blast
  from create_presentation_True [OF ok] obtain g' where r: "?r = (True, Some g')" by blast
  with t have "slide_layouts (presentation g') = slide_layouts blank_first_template"
    "length (slides (presentation g')) = 1 + length (o_slides report_outline)" by blast+
  then have c: "result_layouts ?r = slide_layouts blank_first_template"
    "length (result_slides ?r) = 1 + length (o_slides report_outline)"
    by (simp_all add: r result_layouts_def result_slides_def)
  from t have e: "?r = create_presentation a_date default_presentation
      (Template (blank_first_template\<lparr>slides := []\<rparr>)) report_outline" by (rule conjunct1)
  from h0 h1 h2 ok c e show ?thesis by (intro conjI)
qed

text \<open>
  C5: when the classification loop finds no content layout and there are at least two
  layouts, the content layouts are the layouts at the indices from 1 below
  \<open>min 3 (number of layouts)\<close>, with their indices, and there is at least one; with a
  template of exactly one layout, every slide of the result, the title slide and the
  content slides, is bound to that layout, and assembly succeeds when that layout can be
  instantiated.
\<close>

theorem degraded_content_layouts:
  "(fst (classify_layouts (presentation g) (enumerate 0 (slide_layouts (presentation g))) []) = []
      \<and> 2 \<le> length (slide_layouts (presentation g)) \<longrightarrow>
      content_layouts (identify_content_layouts g) =
        map (\<lambda>i. (i, slide_layouts (presentation g) ! i))
          [1..<min 3 (length (slide_layouts (presentation g)))]
      \<and> content_layouts (identify_content_layouts g) \<noteq> [])
   \<and> (\<forall>l ok g'. slide_layouts prs = [l]
          \<and> create_presentation today default_prs (Template prs) od = (ok, Some g') \<longrightarrow>
          (\<forall>s\<in>set (slides (presentation g')). slide_layout s = l)
          \<and> (ok \<longrightarrow> length (slides (presentation g')) = 1 + length (o_slides od)))
   \<and> (\<forall>l. slide_layouts prs = [l] \<and> new_shapes l \<noteq> None \<longrightarrow>
          fst (create_presentation today default_prs (Template prs) od))"
proof -
  have a: "content_layouts (identify_content_layouts g) =
        map (\<lambda>i. (i, slide_layouts (presentation g) ! i))
          [1..<min 3 (length (slide_layouts (presentation g)))]
      \<and> content_layouts (identify_content_layouts g) \<noteq> []"
    if "fst (classify_layouts (presentation g) (enumerate 0 (slide_layouts (presentation g))) [])
          = []" "2 \<le> length (slide_layouts (presentation g))"
    using identify_content_layouts_default [OF that(1)] that(2) by auto
  have c: "fst (create_presentation today default_prs (Template prs) od)"
    if "slide_layouts prs = [l]" "new_shapes l \<noteq> None" for l
    using that by (intro template_succeeds) simp_all
  from a single_layout_slides [of prs _ today default_prs od] c show ?thesis by blast
qed

theorem degraded_content_layouts_witness:
  "fst (classify_layouts titles_only_template
          (enumerate 0 (slide_layouts titles_only_template)) []) = []
   \<and> 2 \<le> length (slide_layouts titles_only_template)
   \<and> content_layouts (identify_content_layouts (new_generator titles_only_template))
       = [(1, named_layout ''Title Only'' [title_ph])]
   \<and> slide_layouts single_layout_template
       = [named_layout ''Title and Content'' [title_ph, body_ph]]
   \<and> fst (create_presentation a_date default_presentation (Template single_layout_template)
        report_outline)
   \<and> list_all (\<lambda>s. slide_layout s = named_layout ''Title and Content'' [title_ph, body_ph])
        (result_slides (create_presentation a_date default_presentation
           (Template single_layout_template) report_outline))
   \<and> length (result_slides (create_presentation a_date default_presentation
           (Template single_layout_template) report_outline)) = 3"
proof -
  let ?g = "new_generator titles_only_template"
  let ?r = "create_presentation a_date default_presentation (Template single_layout_template)
      report_outline"
  let ?l = "named_layout ''Title and Content'' [title_ph, body_ph]"
  note t = degraded_content_layouts [of ?g single_layout_template a_date default_presentation
      report_outline]
  have p: "presentation ?g = titles_only_template" by (simp add: new_generator_def)
  have h1: "fst (classify_layouts titles_only_template
          (enumerate 0 (slide_layouts titles_only_template)) []) = []"
    by (simp add: classify_layouts_found titles_only_template_def enumerate_simps
        is_content_layout_def named_layout_def keyword_eval)
  have h2: "2 \<le> length (slide_layouts titles_only_template)"
    by (simp add: titles_only_template_def)
  from t h1 h2 have "content_layouts (identify_content_layouts ?g) =
        map (\<lambda>i. (i, slide_layouts (presentation ?g) ! i))
          [1..<min 3 (length (slide_layouts (presentation ?g)))]"
    unfolding p by blast
  also have "\<dots> = [(1, named_layout ''Title Only'' [title_ph])]"
    by (simp add: new_generator_def titles_only_template_def upt_rec)
  finally have c1: "content_layouts (identify_content_layouts ?g)
      = [(1, named_layout ''Title Only'' [title_ph])]" .
  have h3: "slide_layouts single_layout_template = [?l]"
    by (simp add: single_layout_template_def)
  have h4: "new_shapes ?l \<noteq> None" by (simp add: named_layout_def)
  from t h3 h4 have ok: "fst ?r" by blast
  from create_presentation_True [OF ok] obtain g' where r: "?r = (True, Some g')" by blast
  have rs: "result_slides ?r = slides (presentation g')" by (simp add: r result_slides_def)
  have n: "1 + length (o_slides report_outline) = 3" by (simp add: report_outline_def)
  from r t h3 have "\<forall>s\<in>set (slides (presentation g')). slide_layout s = ?l"
    "length (slides (presentation g')) = 1 + length (o_slides report_outline)" by blast+
  then have c2: "list_all (\<lambda>s. slide_layout s = ?l) (result_slides ?r)"
    "length (result_slides ?r) = 3"
    unfolding rs n by (simp_all only: list_all_iff)
  from h1 h2 c1 h3 ok c2 show ?thesis by (intro conjI)
qed

text \<open>
  C1 does not hold of the code.  Method 4 starts with an import that raises, so no text
  box is ever added.  On a slide of a layout that has only a title placeholder, with the
  title "T" and the points "A", "B", "C": strategies 1 to 4 find no placeholder, the scan
  of method 3 passes over the title shape (its text is the title), method 4 raises, and
  the slide is created with its title only and \<open>content_added\<close> left \<open>False\<close>.
\<close>

theorem text_box_never_added:
  "sd_points abc_slide \<noteq> []
   \<and> fst (set_title [title_ph] (ustr ''T'')) = [title_ph\<lparr>paragraphs := [ustr ''T'']\<rparr>]
   \<and> find_content_placeholder [title_ph\<lparr>paragraphs := [ustr ''T'']\<rparr>] = None
   \<and> first_index (\<lambda>s. has_text_frame s
         \<and> strip (tf_text s) \<noteq> strip (get_default (sd_title abc_slide) []))
       [title_ph\<lparr>paragraphs := [ustr ''T'']\<rparr>] = None
   \<and> new_text_box (sd_points abc_slide) [title_ph\<lparr>paragraphs := [ustr ''T'']\<rparr>]
       = Inl ImportError
   \<and> add_content abc_slide [title_ph\<lparr>paragraphs := [ustr ''T'']\<rparr>]
       = ([title_ph\<lparr>paragraphs := [ustr ''T'']\<rparr>], False)
   \<and> fst (create_content_slide title_only_generator abc_slide) =
       Inr \<lparr>slide_layout = named_layout ''Title Only'' [title_ph],
            shapes = [title_ph\<lparr>paragraphs := [ustr ''T'']\<rparr>], notes_text = None\<rparr>"
  using abc_points_nonempty(1) set_title_title_ph(1) [of "[]"] find_none_title_only [of "[ustr ''T'']"]
    no_region_titled new_text_box_raises add_content_title_only create_title_only_titled
  by (intro conjI)





end
